theory Spec2Isabelle
  imports Main "HOL-Library.Sublist"
begin

section \<open>Text values and the conversions applied to form fields\<close>

text \<open>
  The application is a Flask program over SQLite (\<^verbatim>\<open>app.py\<close>). A Python \<^verbatim>\<open>str\<close> is
  a sequence of Unicode code points, so a text value is a list of code points. The keys of
  the request form and the names of tables and columns are ASCII literals of the source and
  are kept as HOL strings.
\<close>

type_synonym pystr = "nat list"

definition str :: "string \<Rightarrow> pystr" where
  "str s = map of_char s"

text \<open>
  \<^verbatim>\<open>str.strip()\<close> removes leading and trailing white space: the code points for which
  \<^verbatim>\<open>str.isspace\<close> holds.
\<close>

definition isspace :: "nat \<Rightarrow> bool" where
  "isspace c \<longleftrightarrow>
     (9 \<le> c \<and> c \<le> 13) \<or> (28 \<le> c \<and> c \<le> 32) \<or> c = 133 \<or> c = 160 \<or> c = 5760 \<or>
     (8192 \<le> c \<and> c \<le> 8202) \<or> c = 8232 \<or> c = 8233 \<or> c = 8239 \<or> c = 8287 \<or> c = 12288"

definition strip :: "pystr \<Rightarrow> pystr" where
  "strip s = rev (dropWhile isspace (rev (dropWhile isspace s)))"

text \<open>
  \<^verbatim>\<open>int(s)\<close> on a \<^verbatim>\<open>str\<close>: surrounding white space is ignored, then an optional sign,
  then decimal digits, where single underscores may separate digits. The white space that
  \<^verbatim>\<open>int\<close> ignores is that of \<^verbatim>\<open>str.isspace\<close> without the four separators U+001C to
  U+001F. A digit is any code point with the Unicode decimal property; these come in runs
  of ten (values 0 to 9), and \<open>decimal_starts\<close> lists the first code point of every run.
  Anything else raises \<^verbatim>\<open>ValueError\<close>, which is the value \<open>None\<close> here, and so does a
  number of more than \<open>max_str_digits\<close> digits, the interpreter's default limit (signs,
  underscores and white space do not count, leading zeros do).
\<close>

definition max_str_digits :: nat where
  "max_str_digits = 4300"

definition int_space :: "nat \<Rightarrow> bool" where
  "int_space c \<longleftrightarrow> isspace c \<and> \<not> (28 \<le> c \<and> c \<le> 31)"

definition decimal_starts :: "nat list" where
  "decimal_starts =
     [48, 1632, 1776, 1984, 2406, 2534, 2662, 2790, 2918, 3046, 3174, 3302, 3430, 3558,
      3664, 3792, 3872, 4160, 4240, 6112, 6160, 6470, 6608, 6784, 6800, 6992, 7088, 7232,
      7248, 42528, 43216, 43264, 43472, 43504, 43600, 44016, 65296, 66720, 68912, 69734,
      69872, 69942, 70096, 70384, 70736, 70864, 71248, 71360, 71472, 71904, 72016, 72784,
      73040, 73120, 92768, 92864, 93008, 120782, 120792, 120802, 120812, 120822, 123200,
      123632, 125264, 130032]"

definition decimal :: "nat \<Rightarrow> int option" where
  "decimal c =
     (case find (\<lambda>b. b \<le> c \<and> c < b + 10) decimal_starts of
        None \<Rightarrow> None
      | Some b \<Rightarrow> Some (int (c - b)))"

fun py_digits :: "int \<Rightarrow> pystr \<Rightarrow> int option" where
  "py_digits acc [] = Some acc"
| "py_digits acc (c # cs) =
     (if c = 95 then
        (case cs of
           [] \<Rightarrow> None
         | d # ds \<Rightarrow>
             (case decimal d of None \<Rightarrow> None | Some v \<Rightarrow> py_digits (acc * 10 + v) ds))
      else
        (case decimal c of None \<Rightarrow> None | Some v \<Rightarrow> py_digits (acc * 10 + v) cs))"

definition py_number :: "pystr \<Rightarrow> int option" where
  "py_number s =
     (if max_str_digits < length (filter (\<lambda>c. c \<noteq> 95) s) then None
      else (case s of
              [] \<Rightarrow> None
            | c # cs \<Rightarrow> (case decimal c of None \<Rightarrow> None | Some v \<Rightarrow> py_digits v cs)))"

definition py_int :: "pystr \<Rightarrow> int option" where
  "py_int s =
     (case rev (dropWhile int_space (rev (dropWhile int_space s))) of
        [] \<Rightarrow> None
      | c # cs \<Rightarrow>
          if c = 45 then map_option uminus (py_number cs)
          else if c = 43 then py_number cs
          else py_number (c # cs))"

text \<open>
  \<^verbatim>\<open>request.form.get(k)\<close> is \<^verbatim>\<open>None\<close> for an absent field. The source reads every text
  field as \<^verbatim>\<open>(request.form.get(k) or d)\<close>: the default \<open>d\<close> replaces an absent and an
  empty value alike.
\<close>

type_synonym form = "string \<Rightarrow> pystr option"

definition form_get_or :: "form \<Rightarrow> string \<Rightarrow> pystr \<Rightarrow> pystr" where
  "form_get_or f k d = (case f k of None \<Rightarrow> d | Some v \<Rightarrow> if v = [] then d else v)"

text \<open>
  The two Persian literals of the source, as code points: the default category
  (U+0639 U+0645 U+0648 U+0645 U+06CC, "general") and the default order status
  (U+062F U+0631, a space, U+0627 U+0646 U+062A U+0638 U+0627 U+0631, "pending").
\<close>

definition default_category :: pystr where
  "default_category = [1593, 1605, 1608, 1605, 1740]"

definition default_status :: pystr where
  "default_status = [1583, 1585, 32, 1575, 1606, 1578, 1592, 1575, 1585]"

section \<open>The store\<close>

text \<open>
  The three tables the handlers read and write, with the columns their statements name.
  A table is the list of its rows in storage order. \<open>Price\<close> may be \<^verbatim>\<open>NULL\<close> (the source
  reads it as \<^verbatim>\<open>item["Price"] or 0\<close>) and so may \<open>Notes\<close> (the source writes \<^verbatim>\<open>None\<close>
  for blank notes). The integers of the program are Python's unbounded integers.
\<close>

record menu_row =
  m_ID :: int
  m_Name :: pystr
  m_Price :: "int option"
  m_Category :: pystr
  m_IsAvailable :: int

record user_row =
  u_ID :: int
  u_FirstName :: pystr
  u_LastName :: pystr
  u_Phone :: int
  u_CreatedAt :: pystr

record checkout_row =
  c_ID :: int
  c_UserID :: int
  c_quantity :: int
  c_ItemID :: int
  c_ItemPrice :: int
  c_TotalPrice :: int
  c_Status :: pystr
  c_Notes :: "pystr option"
  c_CreatedAt :: pystr

text \<open>
  Modelled from the spec: \<^verbatim>\<open>schema.sql\<close>, which declares the tables, is not among the
  sources. The spec says that "referential integrity is enforced at the storage layer";
  \<^verbatim>\<open>get_conn\<close> switches enforcement on (\<^verbatim>\<open>PRAGMA foreign_keys = ON\<close>), and it acts only on
  constraints that the schema declares. Whether \<open>checkout.UserID\<close> and \<open>checkout.ItemID\<close>
  are declared as foreign keys is therefore a field of the store, \<open>fk_declared\<close>, and
  every result below is proved for both values.
\<close>

record store =
  menu_rows :: "menu_row list"
  user_rows :: "user_row list"
  checkout_rows :: "checkout_row list"
  fk_declared :: bool

text \<open>
  What the statements can raise: \<^verbatim>\<open>sqlite3.IntegrityError\<close> and
  \<^verbatim>\<open>sqlite3.OperationalError\<close>, and Python's \<^verbatim>\<open>OverflowError\<close>. SQLite stores an integer
  in 64 bits, two's complement. \<^verbatim>\<open>conn.execute(sql, tuple(params))\<close> binds the parameters
  before the statement runs, and binding an integer outside that range raises
  \<^verbatim>\<open>OverflowError\<close>: the statement does not run. \<open>bound\<close> is that check, put in front of
  the result of every statement that has parameters.
\<close>

datatype exn = IntegrityError | OperationalError | OverflowError

definition int64 :: "int \<Rightarrow> bool" where
  "int64 n \<longleftrightarrow> - (2 ^ 63) \<le> n \<and> n < 2 ^ 63"

definition bound :: "int list \<Rightarrow> exn + 'a \<Rightarrow> exn + 'a" where
  "bound params r = (if list_all int64 params then r else Inl OverflowError)"

text \<open>
  Modelled from the spec: identities are "integer, auto-assigned". The rule is SQLite's for
  an integer primary key: one more than the largest identity in the table, and 1 for an
  empty table. The handlers never choose an identity, so the identities of a table that
  they have filled count up from 1.
\<close>

definition next_id :: "int list \<Rightarrow> int" where
  "next_id ids = (case ids of [] \<Rightarrow> 1 | x # xs \<Rightarrow> fold max xs x + 1)"

subsection \<open>The SQL statements of the handlers\<close>

text \<open>
  \<^verbatim>\<open>query(sql, params, one=True)\<close> is the first row of the result or \<^verbatim>\<open>None\<close>;
  \<^verbatim>\<open>execute(sql, params)\<close> runs one statement and commits it. A statement that raises
  changes nothing. One that breaks a declared foreign key raises \<^verbatim>\<open>IntegrityError\<close>.
\<close>

definition select_menu :: "store \<Rightarrow> int \<Rightarrow> exn + menu_row option" where
  "select_menu s i = bound [i] (Inr (find (\<lambda>r. m_ID r = i) (menu_rows s)))"

definition select_user :: "store \<Rightarrow> int \<Rightarrow> exn + user_row option" where
  "select_user s i = bound [i] (Inr (find (\<lambda>r. u_ID r = i) (user_rows s)))"

definition select_checkout :: "store \<Rightarrow> int \<Rightarrow> exn + checkout_row option" where
  "select_checkout s i = bound [i] (Inr (find (\<lambda>r. c_ID r = i) (checkout_rows s)))"

definition insert_menu :: "pystr \<Rightarrow> int \<Rightarrow> pystr \<Rightarrow> int \<Rightarrow> store \<Rightarrow> exn + store" where
  "insert_menu name price category is_available s =
     bound [price, is_available]
       (Inr (s\<lparr>menu_rows := menu_rows s @
          [\<lparr>m_ID = next_id (map m_ID (menu_rows s)), m_Name = name, m_Price = Some price,
            m_Category = category, m_IsAvailable = is_available\<rparr>]\<rparr>))"

definition update_menu ::
  "pystr \<Rightarrow> int \<Rightarrow> pystr \<Rightarrow> int \<Rightarrow> int \<Rightarrow> store \<Rightarrow> exn + store" where
  "update_menu name price category is_available item_id s =
     bound [price, is_available, item_id]
       (Inr (s\<lparr>menu_rows := map (\<lambda>r. if m_ID r = item_id
                           then r\<lparr>m_Name := name, m_Price := Some price,
                                  m_Category := category, m_IsAvailable := is_available\<rparr>
                           else r) (menu_rows s)\<rparr>))"

definition delete_checkout_by_item :: "int \<Rightarrow> store \<Rightarrow> exn + store" where
  "delete_checkout_by_item item_id s =
     bound [item_id]
       (Inr (s\<lparr>checkout_rows := filter (\<lambda>r. c_ItemID r \<noteq> item_id) (checkout_rows s)\<rparr>))"

definition delete_checkout_by_user :: "int \<Rightarrow> store \<Rightarrow> exn + store" where
  "delete_checkout_by_user user_id s =
     bound [user_id]
       (Inr (s\<lparr>checkout_rows := filter (\<lambda>r. c_UserID r \<noteq> user_id) (checkout_rows s)\<rparr>))"

definition delete_menu :: "int \<Rightarrow> store \<Rightarrow> exn + store" where
  "delete_menu item_id s =
     bound [item_id]
       (if fk_declared s \<and> list_ex (\<lambda>r. m_ID r = item_id) (menu_rows s)
             \<and> list_ex (\<lambda>r. c_ItemID r = item_id) (checkout_rows s)
        then Inl IntegrityError
        else Inr (s\<lparr>menu_rows := filter (\<lambda>r. m_ID r \<noteq> item_id) (menu_rows s)\<rparr>))"

definition delete_user :: "int \<Rightarrow> store \<Rightarrow> exn + store" where
  "delete_user user_id s =
     bound [user_id]
       (if fk_declared s \<and> list_ex (\<lambda>r. u_ID r = user_id) (user_rows s)
             \<and> list_ex (\<lambda>r. c_UserID r = user_id) (checkout_rows s)
        then Inl IntegrityError
        else Inr (s\<lparr>user_rows := filter (\<lambda>r. u_ID r \<noteq> user_id) (user_rows s)\<rparr>))"

definition insert_user :: "pystr \<Rightarrow> pystr \<Rightarrow> int \<Rightarrow> pystr \<Rightarrow> store \<Rightarrow> exn + store" where
  "insert_user first last' phone now s =
     bound [phone]
       (Inr (s\<lparr>user_rows := user_rows s @
          [\<lparr>u_ID = next_id (map u_ID (user_rows s)), u_FirstName = first,
            u_LastName = last', u_Phone = phone, u_CreatedAt = now\<rparr>]\<rparr>))"

definition update_user :: "pystr \<Rightarrow> pystr \<Rightarrow> int \<Rightarrow> int \<Rightarrow> store \<Rightarrow> exn + store" where
  "update_user first last' phone user_id s =
     bound [phone, user_id]
       (Inr (s\<lparr>user_rows := map (\<lambda>r. if u_ID r = user_id
                           then r\<lparr>u_FirstName := first, u_LastName := last',
                                  u_Phone := phone\<rparr>
                           else r) (user_rows s)\<rparr>))"

definition fk_parents_exist :: "store \<Rightarrow> int \<Rightarrow> int \<Rightarrow> bool" where
  "fk_parents_exist s user_id item_id \<longleftrightarrow>
     list_ex (\<lambda>r. u_ID r = user_id) (user_rows s) \<and>
     list_ex (\<lambda>r. m_ID r = item_id) (menu_rows s)"

definition insert_checkout ::
  "int \<Rightarrow> int \<Rightarrow> int \<Rightarrow> int \<Rightarrow> int \<Rightarrow> pystr \<Rightarrow> pystr option \<Rightarrow> pystr \<Rightarrow> store
     \<Rightarrow> exn + store" where
  "insert_checkout user_id qty item_id item_price total' status notes now s =
     bound [user_id, qty, item_id, item_price, total']
       (if fk_declared s \<and> \<not> fk_parents_exist s user_id item_id
        then Inl IntegrityError
        else Inr (s\<lparr>checkout_rows := checkout_rows s @
          [\<lparr>c_ID = next_id (map c_ID (checkout_rows s)), c_UserID = user_id,
            c_quantity = qty, c_ItemID = item_id, c_ItemPrice = item_price,
            c_TotalPrice = total', c_Status = status, c_Notes = notes,
            c_CreatedAt = now\<rparr>]\<rparr>))"

definition update_checkout ::
  "int \<Rightarrow> int \<Rightarrow> int \<Rightarrow> int \<Rightarrow> int \<Rightarrow> pystr \<Rightarrow> pystr option \<Rightarrow> int \<Rightarrow> store
     \<Rightarrow> exn + store" where
  "update_checkout user_id qty item_id item_price total' status notes order_id s =
     bound [user_id, qty, item_id, item_price, total', order_id]
       (if fk_declared s \<and> list_ex (\<lambda>r. c_ID r = order_id) (checkout_rows s)
             \<and> \<not> fk_parents_exist s user_id item_id
        then Inl IntegrityError
        else Inr (s\<lparr>checkout_rows := map (\<lambda>r. if c_ID r = order_id
            then r\<lparr>c_UserID := user_id, c_quantity := qty, c_ItemID := item_id,
                   c_ItemPrice := item_price, c_TotalPrice := total',
                   c_Status := status, c_Notes := notes\<rparr>
            else r) (checkout_rows s)\<rparr>))"

definition delete_checkout :: "int \<Rightarrow> store \<Rightarrow> exn + store" where
  "delete_checkout order_id s =
     bound [order_id]
       (Inr (s\<lparr>checkout_rows := filter (\<lambda>r. c_ID r \<noteq> order_id) (checkout_rows s)\<rparr>))"

section \<open>The request handlers\<close>

text \<open>
  A handler maps the request and the store to a response and the store it leaves behind.
  Every handler ends in one of three ways: \<^verbatim>\<open>flash(message, category)\<close> followed by the
  redirect to the dashboard, \<^verbatim>\<open>abort(404)\<close>, or an exception nobody catches, which Flask
  answers with the 500 page. Category \<open>danger\<close> is a validation failure, \<open>success\<close> a
  completed write. The message texts are Persian sentences; each constructor of \<open>message\<close>
  stands for one literal of the source.
\<close>

datatype flash_category = danger | success

datatype message =
    ItemNameEmpty | PriceInvalid | ItemAdded | ItemUpdated | ItemDeleted
  | NameRequired | PhoneInvalid | CustomerAdded | CustomerUpdated | CustomerDeleted
  | OrderInvalid | ItemMissing | OrderAdded | OrderUpdated | OrderDeleted

datatype response = Redirect flash_category message | NotFound | ServerError exn

text \<open>
  The end of every writing handler: the statement raised, or it went through and the
  handler flashes its message of success.
\<close>

definition finish :: "message \<Rightarrow> store \<Rightarrow> exn + store \<Rightarrow> response \<times> store" where
  "finish m s r = (case r of Inl e \<Rightarrow> (ServerError e, s) | Inr s' \<Rightarrow> (Redirect success m, s'))"

subsection \<open>Menu\<close>

definition menu_create :: "form \<Rightarrow> store \<Rightarrow> response \<times> store" where
  "menu_create f s =
     (let name = strip (form_get_or f ''name'' []);
          category = strip (form_get_or f ''category'' default_category);
          price_raw = strip (form_get_or f ''price'' (str ''0''));
          is_available = (if f ''is_available'' = Some (str ''on'') then 1 else 0)
      in if name = [] then (Redirect danger ItemNameEmpty, s)
         else (case py_int price_raw of
                 None \<Rightarrow> (Redirect danger PriceInvalid, s)
               | Some price \<Rightarrow>
                   if price < 0 then (Redirect danger PriceInvalid, s)
                   else finish ItemAdded s
                          (insert_menu name price category is_available s)))"

definition menu_update :: "int \<Rightarrow> form \<Rightarrow> store \<Rightarrow> response \<times> store" where
  "menu_update item_id f s =
     (let name = strip (form_get_or f ''name'' []);
          category = strip (form_get_or f ''category'' default_category);
          price_raw = strip (form_get_or f ''price'' (str ''0''));
          is_available = (if f ''is_available'' = Some (str ''on'') then 1 else 0)
      in case select_menu s item_id of
           Inl e \<Rightarrow> (ServerError e, s)
         | Inr None \<Rightarrow> (NotFound, s)
         | Inr (Some _) \<Rightarrow>
             if name = [] then (Redirect danger ItemNameEmpty, s)
             else (case py_int price_raw of
                     None \<Rightarrow> (Redirect danger PriceInvalid, s)
                   | Some price \<Rightarrow>
                       if price < 0 then (Redirect danger PriceInvalid, s)
                       else finish ItemUpdated s
                              (update_menu name price category is_available item_id s)))"

definition menu_delete :: "int \<Rightarrow> store \<Rightarrow> response \<times> store" where
  "menu_delete item_id s =
     (case delete_checkout_by_item item_id s of
        Inl e \<Rightarrow> (ServerError e, s)
      | Inr s1 \<Rightarrow> finish ItemDeleted s1 (delete_menu item_id s1))"

subsection \<open>Customers\<close>

text \<open>\<open>now\<close> is the value of \<^verbatim>\<open>datetime('now')\<close> when the statement runs.\<close>

definition customer_create :: "pystr \<Rightarrow> form \<Rightarrow> store \<Rightarrow> response \<times> store" where
  "customer_create now f s =
     (let first = strip (form_get_or f ''first_name'' []);
          last' = strip (form_get_or f ''last_name'' []);
          phone_raw = strip (form_get_or f ''phone'' [])
      in if first = [] \<or> last' = [] then (Redirect danger NameRequired, s)
         else (case py_int phone_raw of
                 None \<Rightarrow> (Redirect danger PhoneInvalid, s)
               | Some phone \<Rightarrow>
                   if phone \<le> 0 then (Redirect danger PhoneInvalid, s)
                   else finish CustomerAdded s (insert_user first last' phone now s)))"

definition customer_update :: "int \<Rightarrow> form \<Rightarrow> store \<Rightarrow> response \<times> store" where
  "customer_update user_id f s =
     (let first = strip (form_get_or f ''first_name'' []);
          last' = strip (form_get_or f ''last_name'' []);
          phone_raw = strip (form_get_or f ''phone'' [])
      in case select_user s user_id of
           Inl e \<Rightarrow> (ServerError e, s)
         | Inr None \<Rightarrow> (NotFound, s)
         | Inr (Some _) \<Rightarrow>
             if first = [] \<or> last' = [] then (Redirect danger NameRequired, s)
             else (case py_int phone_raw of
                     None \<Rightarrow> (Redirect danger PhoneInvalid, s)
                   | Some phone \<Rightarrow>
                       if phone \<le> 0 then (Redirect danger PhoneInvalid, s)
                       else finish CustomerUpdated s
                              (update_user first last' phone user_id s)))"

definition customer_delete :: "int \<Rightarrow> store \<Rightarrow> response \<times> store" where
  "customer_delete user_id s =
     (case delete_checkout_by_user user_id s of
        Inl e \<Rightarrow> (ServerError e, s)
      | Inr s1 \<Rightarrow> finish CustomerDeleted s1 (delete_user user_id s1))"

subsection \<open>Orders\<close>

text \<open>
  The \<^verbatim>\<open>try\<close> block of the order handlers converts the three numbers in turn; any
  \<^verbatim>\<open>ValueError\<close>, and a quantity that is not positive, ends in the same message.
\<close>

definition order_numbers :: "pystr \<Rightarrow> pystr \<Rightarrow> pystr \<Rightarrow> (int \<times> int \<times> int) option" where
  "order_numbers user_id item_id qty_raw =
     (case py_int user_id of
        None \<Rightarrow> None
      | Some user_id_i \<Rightarrow>
          (case py_int item_id of
             None \<Rightarrow> None
           | Some item_id_i \<Rightarrow>
               (case py_int qty_raw of
                  None \<Rightarrow> None
                | Some qty \<Rightarrow> if qty \<le> 0 then None else Some (user_id_i, item_id_i, qty))))"

definition price_or_0 :: "menu_row \<Rightarrow> int" where
  "price_or_0 item = (case m_Price item of None \<Rightarrow> 0 | Some p \<Rightarrow> p)"

definition blank_to_none :: "pystr \<Rightarrow> pystr option" where
  "blank_to_none n = (if n = [] then None else Some n)"

definition order_create :: "pystr \<Rightarrow> form \<Rightarrow> store \<Rightarrow> response \<times> store" where
  "order_create now f s =
     (let user_id = strip (form_get_or f ''user_id'' []);
          item_id = strip (form_get_or f ''item_id'' []);
          qty_raw = strip (form_get_or f ''quantity'' (str ''1''));
          status = strip (form_get_or f ''status'' default_status);
          notes = blank_to_none (strip (form_get_or f ''notes'' []))
      in case order_numbers user_id item_id qty_raw of
           None \<Rightarrow> (Redirect danger OrderInvalid, s)
         | Some (user_id_i, item_id_i, qty) \<Rightarrow>
             (case select_menu s item_id_i of
                Inl e \<Rightarrow> (ServerError e, s)
              | Inr None \<Rightarrow> (Redirect danger ItemMissing, s)
              | Inr (Some item) \<Rightarrow>
                  (let item_price = price_or_0 item;
                       total' = item_price * qty
                   in finish OrderAdded s
                        (insert_checkout user_id_i qty item_id_i item_price total'
                           status notes now s))))"

definition order_update :: "int \<Rightarrow> form \<Rightarrow> store \<Rightarrow> response \<times> store" where
  "order_update order_id f s =
     (let user_id = strip (form_get_or f ''user_id'' []);
          item_id = strip (form_get_or f ''item_id'' []);
          qty_raw = strip (form_get_or f ''quantity'' (str ''1''));
          status = strip (form_get_or f ''status'' default_status);
          notes = blank_to_none (strip (form_get_or f ''notes'' []))
      in case select_checkout s order_id of
           Inl e \<Rightarrow> (ServerError e, s)
         | Inr None \<Rightarrow> (NotFound, s)
         | Inr (Some _) \<Rightarrow>
             (case order_numbers user_id item_id qty_raw of
                None \<Rightarrow> (Redirect danger OrderInvalid, s)
              | Some (user_id_i, item_id_i, qty) \<Rightarrow>
                  (case select_menu s item_id_i of
                     Inl e \<Rightarrow> (ServerError e, s)
                   | Inr None \<Rightarrow> (Redirect danger ItemMissing, s)
                   | Inr (Some item) \<Rightarrow>
                       (let item_price = price_or_0 item;
                            total' = item_price * qty
                        in finish OrderUpdated s
                             (update_checkout user_id_i qty item_id_i item_price total'
                                status notes order_id s)))))"

definition order_delete :: "int \<Rightarrow> store \<Rightarrow> response \<times> store" where
  "order_delete order_id s = finish OrderDeleted s (delete_checkout order_id s)"

section \<open>The dashboard query\<close>

text \<open>
  \<^verbatim>\<open>fetch_dashboard_data\<close> reads the three listings, each \<^verbatim>\<open>ORDER BY ID DESC\<close>, and four
  aggregates. The order listing is the inner join of \<open>checkout\<close> with \<open>user\<close> and \<open>menu\<close>.
  \<^verbatim>\<open>COUNT(*)\<close> is the number of rows. \<^verbatim>\<open>SUM\<close> over no rows is \<^verbatim>\<open>NULL\<close>, which
  \<^verbatim>\<open>COALESCE(\<dots>, 0)\<close> turns into 0. \<^verbatim>\<open>SUM\<close> adds the integers up in 64 bits, row after
  row; once a sum on the way leaves the range the query raises \<^verbatim>\<open>OperationalError\<close>
  ("integer overflow"), whatever the rows after it are, and \<^verbatim>\<open>fetch_dashboard_data\<close>
  raises with it.
\<close>

record order_line =
  o_OrderID :: int
  o_Quantity :: int
  o_ItemPrice :: int
  o_TotalPrice :: int
  o_Status :: pystr
  o_Notes :: "pystr option"
  o_CreatedAt :: pystr
  o_UserID :: int
  o_FirstName :: pystr
  o_LastName :: pystr
  o_Phone :: int
  o_ItemID :: int
  o_ItemName :: pystr
  o_Category :: pystr

record stats =
  customers :: int
  items :: int
  orders :: int
  revenue :: int

definition join_line :: "checkout_row \<Rightarrow> user_row \<Rightarrow> menu_row \<Rightarrow> order_line" where
  "join_line c u m =
     \<lparr>o_OrderID = c_ID c, o_Quantity = c_quantity c, o_ItemPrice = c_ItemPrice c,
      o_TotalPrice = c_TotalPrice c, o_Status = c_Status c, o_Notes = c_Notes c,
      o_CreatedAt = c_CreatedAt c, o_UserID = u_ID u, o_FirstName = u_FirstName u,
      o_LastName = u_LastName u, o_Phone = u_Phone u, o_ItemID = m_ID m,
      o_ItemName = m_Name m, o_Category = m_Category m\<rparr>"

definition list_menu :: "store \<Rightarrow> menu_row list" where
  "list_menu s = sort_key (\<lambda>r. - m_ID r) (menu_rows s)"

definition list_user :: "store \<Rightarrow> user_row list" where
  "list_user s = sort_key (\<lambda>r. - u_ID r) (user_rows s)"

definition list_checkout :: "store \<Rightarrow> order_line list" where
  "list_checkout s =
     concat (map (\<lambda>c.
       concat (map (\<lambda>u. map (join_line c u)
                      (filter (\<lambda>m. m_ID m = c_ItemID c) (menu_rows s)))
              (filter (\<lambda>u. u_ID u = c_UserID c) (user_rows s))))
       (sort_key (\<lambda>r. - c_ID r) (checkout_rows s)))"

definition sql_count :: "'a list \<Rightarrow> int" where
  "sql_count rs = int (length rs)"

fun sum_from :: "int \<Rightarrow> int list \<Rightarrow> exn + int" where
  "sum_from acc [] = Inr acc"
| "sum_from acc (v # vs) =
     (if int64 (acc + v) then sum_from (acc + v) vs else Inl OperationalError)"

definition sql_sum :: "int list \<Rightarrow> exn + int option" where
  "sql_sum vs =
     (if vs = [] then Inr None
      else (case sum_from 0 vs of Inl e \<Rightarrow> Inl e | Inr t \<Rightarrow> Inr (Some t)))"

text \<open>
  The condition under which \<^verbatim>\<open>SUM\<close> returns, stated without \<open>sum_from\<close>: the total of
  every initial stretch of the values fits 64 bits.
\<close>

definition running_totals_fit :: "int list \<Rightarrow> bool" where
  "running_totals_fit vs \<longleftrightarrow>
     list_all (\<lambda>n. int64 (sum_list (take n vs))) [0 ..< Suc (length vs)]"

definition coalesce :: "int option \<Rightarrow> int \<Rightarrow> int" where
  "coalesce v d = (case v of None \<Rightarrow> d | Some x \<Rightarrow> x)"

definition fetch_dashboard_data ::
  "store \<Rightarrow> exn + menu_row list \<times> user_row list \<times> order_line list \<times> stats" where
  "fetch_dashboard_data s =
     (let items_l = list_menu s;
          customers_l = list_user s;
          orders_l = list_checkout s;
          total_customers = sql_count (user_rows s);
          total_items = sql_count (menu_rows s);
          total_orders = sql_count (checkout_rows s)
      in case sql_sum (map c_TotalPrice (checkout_rows s)) of
           Inl e \<Rightarrow> Inl e
         | Inr v \<Rightarrow>
             (let total_revenue = coalesce v 0
              in Inr (items_l, customers_l, orders_l,
                      \<lparr>customers = total_customers, items = total_items,
                       orders = total_orders, revenue = total_revenue\<rparr>)))"

section \<open>Schema initialisation\<close>

text \<open>
  \<^verbatim>\<open>init_db\<close> works on whatever database file it finds, so here a table is a list of
  column names and a list of rows, a row gives a value to every column name, and a database
  is a list of named tables. SQLite resolves the names of tables and columns without
  regard to ASCII case, while \<^verbatim>\<open>has_column\<close> compares column names with \<^verbatim>\<open>==\<close>.
  \<^verbatim>\<open>ALTER TABLE \<dots> ADD COLUMN\<close> fails on a missing table and on a column that is already
  there. Every \<^verbatim>\<open>execute\<close> commits its statement, so when a statement raises, the work of
  the earlier ones stays: the result of a run is the exception, if any, and the database
  as it was left. A database file that does not exist yet, which \<^verbatim>\<open>init_db\<close> creates
  empty, is the database with no tables.
\<close>

datatype sqlval = Null | IntV int | TextV pystr

type_synonym row = "string \<Rightarrow> sqlval"

record table =
  t_cols :: "string list"
  t_rows :: "row list"

type_synonym db = "(string \<times> table) list"

definition lower_char :: "char \<Rightarrow> char" where
  "lower_char c =
     (case map_of (zip ''ABCDEFGHIJKLMNOPQRSTUVWXYZ'' ''abcdefghijklmnopqrstuvwxyz'') c of
        None \<Rightarrow> c
      | Some l \<Rightarrow> l)"

definition lower :: "string \<Rightarrow> string" where
  "lower cs = map lower_char cs"

definition find_table :: "db \<Rightarrow> string \<Rightarrow> table option" where
  "find_table d tbl = map_option snd (find (\<lambda>nt. lower (fst nt) = lower tbl) d)"

fun map_table :: "string \<Rightarrow> (table \<Rightarrow> table) \<Rightarrow> db \<Rightarrow> db" where
  "map_table tbl g [] = []"
| "map_table tbl g (nt # d) =
     (if lower (fst nt) = lower tbl then (fst nt, g (snd nt)) # d
      else nt # map_table tbl g d)"

definition table_info :: "db \<Rightarrow> string \<Rightarrow> string list" where
  "table_info d tbl = (case find_table d tbl of None \<Rightarrow> [] | Some t \<Rightarrow> t_cols t)"

definition has_column :: "db \<Rightarrow> string \<Rightarrow> string \<Rightarrow> bool" where
  "has_column d tbl col \<longleftrightarrow> col \<in> set (table_info d tbl)"

definition alter_add :: "string \<Rightarrow> string \<Rightarrow> sqlval \<Rightarrow> db \<Rightarrow> exn + db" where
  "alter_add tbl col dflt d =
     (case find_table d tbl of
        None \<Rightarrow> Inl OperationalError
      | Some t \<Rightarrow>
          if lower col \<in> set (map lower (t_cols t)) then Inl OperationalError
          else Inr (map_table tbl
                 (\<lambda>t. t\<lparr>t_cols := t_cols t @ [col],
                        t_rows := map (\<lambda>r. r(col := dflt)) (t_rows t)\<rparr>) d))"

text \<open>
  \<^verbatim>\<open>UPDATE tbl SET col = COALESCE(col, datetime('now'))\<close>, on the column of the table that
  has this name, whatever its case.
\<close>

definition backfill :: "string \<Rightarrow> string \<Rightarrow> pystr \<Rightarrow> db \<Rightarrow> exn + db" where
  "backfill tbl col now d =
     (case find_table d tbl of
        None \<Rightarrow> Inl OperationalError
      | Some t \<Rightarrow>
          (case find (\<lambda>c. lower c = lower col) (t_cols t) of
             None \<Rightarrow> Inl OperationalError
           | Some c \<Rightarrow>
               Inr (map_table tbl
                 (\<lambda>t. t\<lparr>t_rows := map (\<lambda>r. r(c := (if r c = Null then TextV now else r c)))
                                    (t_rows t)\<rparr>) d)))"

text \<open>
  Modelled from the spec: \<^verbatim>\<open>schema.sql\<close> is not among the sources. By the spec the step
  "create[s] the base tables if absent", so the script is a list of tables, each with its
  column names, and running it adds, empty, those that the database does not have. The
  script is a parameter of \<open>init_db\<close>; \<open>None\<close> is the case that the file does not exist.
\<close>

type_synonym schema = "(string \<times> string list) list"

definition create_if_absent :: "string \<times> string list \<Rightarrow> db \<Rightarrow> db" where
  "create_if_absent nc d =
     (case find_table d (fst nc) of
        None \<Rightarrow> d @ [(fst nc, \<lparr>t_cols = snd nc, t_rows = []\<rparr>)]
      | Some _ \<Rightarrow> d)"

definition executescript :: "schema option \<Rightarrow> db \<Rightarrow> exn option \<times> db" where
  "executescript sch d =
     (case sch of None \<Rightarrow> (None, d) | Some tables \<Rightarrow> (None, fold create_if_absent tables d))"

text \<open>
  The two shapes of migration in \<^verbatim>\<open>init_db\<close>: add a column when \<^verbatim>\<open>has_column\<close> does not
  find it, and, for \<open>CreatedAt\<close>, fill the new column afterwards. A run that has already
  raised does nothing more.
\<close>

definition add_column ::
  "string \<Rightarrow> string \<Rightarrow> sqlval \<Rightarrow> exn option \<times> db \<Rightarrow> exn option \<times> db" where
  "add_column tbl col dflt r =
     (case r of
        (Some e, d) \<Rightarrow> (Some e, d)
      | (None, d) \<Rightarrow>
          if has_column d tbl col then (None, d)
          else (case alter_add tbl col dflt d of
                  Inl e \<Rightarrow> (Some e, d)
                | Inr d1 \<Rightarrow> (None, d1)))"

definition add_created_at :: "string \<Rightarrow> pystr \<Rightarrow> exn option \<times> db \<Rightarrow> exn option \<times> db" where
  "add_created_at tbl now r =
     (case r of
        (Some e, d) \<Rightarrow> (Some e, d)
      | (None, d) \<Rightarrow>
          if has_column d tbl ''CreatedAt'' then (None, d)
          else (case alter_add tbl ''CreatedAt'' Null d of
                  Inl e \<Rightarrow> (Some e, d)
                | Inr d1 \<Rightarrow>
                    (case backfill tbl ''CreatedAt'' now d1 of
                       Inl e \<Rightarrow> (Some e, d1)
                     | Inr d2 \<Rightarrow> (None, d2))))"

definition init_db :: "schema option \<Rightarrow> pystr \<Rightarrow> db \<Rightarrow> exn option \<times> db" where
  "init_db sch now d =
     (let r0 = executescript sch d;
          r1 = add_created_at ''user'' now r0;
          r2 = add_column ''menu'' ''Category'' (TextV default_category) r1;
          r3 = add_column ''menu'' ''IsAvailable'' (IntV 1) r2;
          r4 = add_created_at ''checkout'' now r3;
          r5 = add_column ''checkout'' ''Status'' (TextV default_status) r4;
          r6 = add_column ''checkout'' ''Notes'' Null r5
      in r6)"

text \<open>
  What a run must keep: every table that was there is still there, its columns are still
  its first columns, it has as many rows as before, and each row has the value it had in
  every old column where that value was not \<^verbatim>\<open>NULL\<close>.
\<close>

definition table_kept :: "table \<Rightarrow> table \<Rightarrow> bool" where
  "table_kept t t' \<longleftrightarrow>
     prefix (t_cols t) (t_cols t') \<and> length (t_rows t') = length (t_rows t) \<and>
     (\<forall>i < length (t_rows t). \<forall>c \<in> set (t_cols t).
        (t_rows t ! i) c \<noteq> Null \<longrightarrow> (t_rows t' ! i) c = (t_rows t ! i) c)"

definition db_kept :: "db \<Rightarrow> db \<Rightarrow> bool" where
  "db_kept d d' \<longleftrightarrow>
     (\<forall>n t. find_table d n = Some t \<longrightarrow> (\<exists>t'. find_table d' n = Some t' \<and> table_kept t t'))"

definition present :: "schema option \<Rightarrow> db \<Rightarrow> bool" where
  "present sch d \<longleftrightarrow>
     (case sch of
        None \<Rightarrow> True
      | Some tables \<Rightarrow> \<forall>nc \<in> set tables. find_table d (fst nc) \<noteq> None)"

text \<open>
  Two notions for the proof that a second run changes nothing. The migrations of a run, in
  order, as functions on the state of the run; and what makes a migration safe to repeat:
  there is a condition on the database under which the repeated step \<open>f'\<close> does nothing,
  which holds after \<open>f\<close> has gone through and keeps holding as the database grows, and
  when \<open>f\<close> raises it leaves the database alone and \<open>f'\<close> raises the same.
\<close>

type_synonym run = "exn option \<times> db"

definition resumable :: "(run \<Rightarrow> run) \<Rightarrow> (run \<Rightarrow> run) \<Rightarrow> bool" where
  "resumable f f' \<longleftrightarrow>
     (\<exists>P. (\<forall>e d. f (Some e, d) = (Some e, d) \<and> f' (Some e, d) = (Some e, d)) \<and>
          (\<forall>d. P d \<longrightarrow> f' (None, d) = (None, d)) \<and>
          (\<forall>d d'. f (None, d) = (None, d') \<longrightarrow> P d' \<and> db_kept d d') \<and>
          (\<forall>d e d'. f (None, d) = (Some e, d') \<longrightarrow> d' = d \<and> f' (None, d) = (Some e, d)) \<and>
          (\<forall>d d'. db_kept d d' \<longrightarrow> P d \<longrightarrow> P d'))"

definition migrations :: "pystr \<Rightarrow> (run \<Rightarrow> run) list" where
  "migrations now =
     [add_created_at ''user'' now,
      add_column ''menu'' ''Category'' (TextV default_category),
      add_column ''menu'' ''IsAvailable'' (IntV 1),
      add_created_at ''checkout'' now,
      add_column ''checkout'' ''Status'' (TextV default_status),
      add_column ''checkout'' ''Notes'' Null]"

section \<open>Example data\<close>

text \<open>
  A shop with two menu items, two customers and three orders, the request forms and a
  database file of an older version of the schema, whose first table is spelled \<open>User\<close>.
  The theorems below are instantiated at these values.
\<close>

definition form_of :: "(string \<times> string) list \<Rightarrow> form" where
  "form_of kvs k = map_option str (map_of kvs k)"

definition clock :: pystr where
  "clock = str ''2024-05-01 12:00:00''"

definition tea :: menu_row where
  "tea = \<lparr>m_ID = 1, m_Name = str ''Tea'', m_Price = Some 15000,
          m_Category = default_category, m_IsAvailable = 1\<rparr>"

definition coffee :: menu_row where
  "coffee = \<lparr>m_ID = 2, m_Name = str ''Coffee'', m_Price = Some 20000,
             m_Category = str ''Hot'', m_IsAvailable = 1\<rparr>"

definition ali :: user_row where
  "ali = \<lparr>u_ID = 1, u_FirstName = str ''Ali'', u_LastName = str ''Rezaei'',
          u_Phone = 9121234567, u_CreatedAt = clock\<rparr>"

definition sara :: user_row where
  "sara = \<lparr>u_ID = 2, u_FirstName = str ''Sara'', u_LastName = str ''Ahmadi'',
           u_Phone = 9351112233, u_CreatedAt = clock\<rparr>"

definition order1 :: checkout_row where
  "order1 = \<lparr>c_ID = 1, c_UserID = 1, c_quantity = 3, c_ItemID = 1, c_ItemPrice = 15000,
             c_TotalPrice = 45000, c_Status = default_status, c_Notes = None,
             c_CreatedAt = clock\<rparr>"

definition order2 :: checkout_row where
  "order2 = \<lparr>c_ID = 2, c_UserID = 2, c_quantity = 1, c_ItemID = 2, c_ItemPrice = 20000,
             c_TotalPrice = 20000, c_Status = default_status, c_Notes = None,
             c_CreatedAt = clock\<rparr>"

definition order3 :: checkout_row where
  "order3 = \<lparr>c_ID = 3, c_UserID = 2, c_quantity = 2, c_ItemID = 1, c_ItemPrice = 15000,
             c_TotalPrice = 30000, c_Status = default_status, c_Notes = None,
             c_CreatedAt = clock\<rparr>"

definition shop :: "bool \<Rightarrow> store" where
  "shop fk = \<lparr>menu_rows = [tea, coffee], user_rows = [ali, sara],
              checkout_rows = [order1, order2, order3], fk_declared = fk\<rparr>"

definition empty_shop :: store where
  "empty_shop = \<lparr>menu_rows = [], user_rows = [], checkout_rows = [], fk_declared = True\<rparr>"

definition legacy_db :: db where
  "legacy_db =
     [(''User'', \<lparr>t_cols = [''ID'', ''FirstName'', ''LastName'', ''Phone''],
                  t_rows = [(\<lambda>_. Null)(''ID'' := IntV 1, ''FirstName'' := TextV (str ''Ali''),
                              ''LastName'' := TextV (str ''Rezaei''),
                              ''Phone'' := IntV 9121234567)]\<rparr>),
      (''menu'', \<lparr>t_cols = [''ID'', ''Name'', ''Price''],
                  t_rows = [(\<lambda>_. Null)(''ID'' := IntV 1, ''Name'' := TextV (str ''Tea''),
                              ''Price'' := IntV 15000)]\<rparr>),
      (''checkout'', \<lparr>t_cols = [''ID'', ''UserID'', ''quantity'', ''ItemID'', ''ItemPrice'',
                                ''TotalPrice''],
                      t_rows = [(\<lambda>_. Null)(''ID'' := IntV 1, ''UserID'' := IntV 1,
                                  ''quantity'' := IntV 3, ''ItemID'' := IntV 1,
                                  ''ItemPrice'' := IntV 15000,
                                  ''TotalPrice'' := IntV 45000)]\<rparr>)]"

definition base_schema :: schema where
  "base_schema =
     [(''user'', [''ID'', ''FirstName'', ''LastName'', ''Phone'']),
      (''menu'', [''ID'', ''Name'', ''Price'']),
      (''checkout'', [''ID'', ''UserID'', ''quantity'', ''ItemID'', ''ItemPrice'',
                      ''TotalPrice''])]"

definition later :: pystr where
  "later = str ''2025-01-01 08:30:00''"

text \<open>
  A shop that four requests build from the empty one: a customer, a menu item at the
  largest price that fits 64 bits, and two orders of one piece each.
\<close>

definition gold :: menu_row where
  "gold = \<lparr>m_ID = 1, m_Name = str ''Gold'', m_Price = Some 9223372036854775807,
           m_Category = default_category, m_IsAvailable = 0\<rparr>"

definition gold_order :: "int \<Rightarrow> checkout_row" where
  "gold_order n = \<lparr>c_ID = n, c_UserID = 1, c_quantity = 1, c_ItemID = 1,
             c_ItemPrice = 9223372036854775807, c_TotalPrice = 9223372036854775807,
             c_Status = default_status, c_Notes = None, c_CreatedAt = clock\<rparr>"

definition gold_shop :: store where
  "gold_shop = \<lparr>menu_rows = [gold], user_rows = [ali],
                checkout_rows = [gold_order 1, gold_order 2], fk_declared = True\<rparr>"

text \<open>
  The order that the shop without declared foreign keys accepts for customer 7, who does
  not exist.
\<close>

definition stray_order :: checkout_row where
  "stray_order = \<lparr>c_ID = 4, c_UserID = 7, c_quantity = 1, c_ItemID = 1, c_ItemPrice = 15000,
             c_TotalPrice = 15000, c_Status = default_status, c_Notes = None,
             c_CreatedAt = clock\<rparr>"

section \<open>Evaluation rules for concrete requests\<close>

lemmas text_eval = str_def strip_def isspace_def int_space_def py_int_def py_number_def
  max_str_digits_def decimal_def decimal_starts_def form_get_or_def form_of_def
  default_category_def default_status_def

lemmas data_eval = tea_def coffee_def ali_def sara_def order1_def order2_def order3_def
  shop_def empty_shop_def clock_def gold_def gold_order_def gold_shop_def stray_order_def

lemmas sql_eval = bound_def int64_def finish_def select_menu_def select_user_def
  select_checkout_def insert_menu_def update_menu_def insert_user_def update_user_def
  insert_checkout_def update_checkout_def delete_checkout_def delete_checkout_by_item_def
  delete_checkout_by_user_def delete_menu_def delete_user_def fk_parents_exist_def
  next_id_def order_numbers_def price_or_0_def blank_to_none_def

lemma lower_names:
  "lower ''user'' = ''user''"
  "lower ''User'' = ''user''"
  "lower ''menu'' = ''menu''"
  "lower ''checkout'' = ''checkout''"
  "lower ''ID'' = ''id''"
  "lower ''FirstName'' = ''firstname''"
  "lower ''LastName'' = ''lastname''"
  "lower ''Phone'' = ''phone''"
  "lower ''Name'' = ''name''"
  "lower ''Price'' = ''price''"
  "lower ''UserID'' = ''userid''"
  "lower ''quantity'' = ''quantity''"
  "lower ''ItemID'' = ''itemid''"
  "lower ''ItemPrice'' = ''itemprice''"
  "lower ''TotalPrice'' = ''totalprice''"
  "lower ''CreatedAt'' = ''createdat''"
  "lower ''Category'' = ''category''"
  "lower ''IsAvailable'' = ''isavailable''"
  "lower ''Status'' = ''status''"
  "lower ''Notes'' = ''notes''"
  by (simp_all add: lower_def lower_char_def)

lemmas init_eval = init_db_def executescript_def create_if_absent_def add_created_at_def
  add_column_def has_column_def table_info_def find_table_def alter_add_def backfill_def
  lower_names legacy_db_def base_schema_def

section \<open>Schema initialisation keeps what it finds and settles after one run\<close>

lemma table_kept_refl: "table_kept t t"
  by (simp add: table_kept_def)

lemma table_kept_trans:
  assumes "table_kept t1 t2" and "table_kept t2 t3"
  shows "table_kept t1 t3"
proof -
  from assms have p: "prefix (t_cols t1) (t_cols t3)"
    unfolding table_kept_def by (meson prefix_order.order_trans)
  from assms have l: "length (t_rows t3) = length (t_rows t1)"
    unfolding table_kept_def by simp
  from assms have sub: "set (t_cols t1) \<subseteq> set (t_cols t2)"
    unfolding table_kept_def by (meson set_mono_prefix)
  have "(t_rows t3 ! i) c = (t_rows t1 ! i) c"
    if "i < length (t_rows t1)" "c \<in> set (t_cols t1)" "(t_rows t1 ! i) c \<noteq> Null" for i c
  proof -
    from assms(1) that have e12: "(t_rows t2 ! i) c = (t_rows t1 ! i) c"
      unfolding table_kept_def by blast
    from assms(1) that have i2: "i < length (t_rows t2)"
      unfolding table_kept_def by simp
    from sub that have c2: "c \<in> set (t_cols t2)" by blast
    from assms(2) i2 c2 e12 that(3) have "(t_rows t3 ! i) c = (t_rows t2 ! i) c"
      unfolding table_kept_def by simp
    with e12 show ?thesis by simp
  qed
  with p l show ?thesis unfolding table_kept_def by blast
qed

lemma db_kept_refl: "db_kept d d"
  by (simp add: db_kept_def table_kept_refl)

lemma db_kept_trans: "db_kept d1 d2 \<Longrightarrow> db_kept d2 d3 \<Longrightarrow> db_kept d1 d3"
  unfolding db_kept_def by (meson table_kept_trans)

lemma db_kept_has_column:
  assumes "db_kept d d'" and "has_column d tbl col"
  shows "has_column d' tbl col"
proof -
  from assms(2) obtain t where t: "find_table d tbl = Some t" and c: "col \<in> set (t_cols t)"
    by (cases "find_table d tbl") (auto simp: has_column_def table_info_def)
  from assms(1) t obtain t' where t': "find_table d' tbl = Some t'" and k: "table_kept t t'"
    unfolding db_kept_def by blast
  from k have "set (t_cols t) \<subseteq> set (t_cols t')"
    unfolding table_kept_def by (meson set_mono_prefix)
  with c t' show ?thesis
    by (auto simp: has_column_def table_info_def)
qed

lemma db_kept_present: "db_kept d d' \<Longrightarrow> present sch d \<Longrightarrow> present sch d'"
  unfolding db_kept_def present_def
  by (cases sch) force+

lemma lower_not_in: "lower col \<notin> set (map lower cs) \<Longrightarrow> col \<notin> set cs"
  by auto

lemma find_append_case:
  "find P (xs @ ys) = (case find P xs of None \<Rightarrow> find P ys | Some x \<Rightarrow> Some x)"
  by (induction xs) auto

lemma find_table_append:
  "find_table (d @ e) n = (case find_table d n of None \<Rightarrow> find_table e n | Some t \<Rightarrow> Some t)"
  by (simp add: find_table_def find_append_case split: option.splits)

lemma find_table_lower: "lower n = lower m \<Longrightarrow> find_table d n = find_table d m"
  by (simp add: find_table_def)

lemma find_table_map_table:
  "find_table (map_table tbl g d) n =
     (if lower n = lower tbl then map_option g (find_table d n) else find_table d n)"
  by (induction d) (auto simp: find_table_def)

lemma map_table_kept:
  assumes "find_table d tbl = Some t" and "table_kept t (g t)"
  shows "db_kept d (map_table tbl g d)"
  unfolding db_kept_def
proof (intro allI impI)
  fix n u assume u: "find_table d n = Some u"
  show "\<exists>t'. find_table (map_table tbl g d) n = Some t' \<and> table_kept u t'"
  proof (cases "lower n = lower tbl")
    case True
    then have "find_table d n = find_table d tbl" by (rule find_table_lower)
    with u assms(1) have "u = t" by simp
    with True u assms(2) show ?thesis
      by (simp add: find_table_map_table)
  next
    case False
    with u show ?thesis
      by (simp add: find_table_map_table table_kept_refl)
  qed
qed

lemma alter_add_kept:
  assumes "alter_add tbl col dflt d = Inr d'"
  shows "db_kept d d'" and "has_column d' tbl col"
proof -
  from assms obtain t where t: "find_table d tbl = Some t"
    and nin: "lower col \<notin> set (map lower (t_cols t))"
    and d': "d' = map_table tbl (\<lambda>t. t\<lparr>t_cols := t_cols t @ [col],
                        t_rows := map (\<lambda>r. r(col := dflt)) (t_rows t)\<rparr>) d"
    by (auto simp: alter_add_def split: option.splits if_splits)
  from nin have c: "col \<notin> set (t_cols t)" by (rule lower_not_in)
  show "has_column d' tbl col"
    by (simp add: has_column_def table_info_def d' find_table_map_table t)
  from c have "table_kept t (t\<lparr>t_cols := t_cols t @ [col],
                        t_rows := map (\<lambda>r. r(col := dflt)) (t_rows t)\<rparr>)"
    by (auto simp: table_kept_def)
  with t show "db_kept d d'"
    unfolding d' by (rule map_table_kept)
qed

lemma backfill_kept:
  assumes "backfill tbl col now d = Inr d'"
  shows "db_kept d d'"
proof -
  from assms obtain t c where t: "find_table d tbl = Some t"
    and d': "d' = map_table tbl
       (\<lambda>t. t\<lparr>t_rows := map (\<lambda>r. r(c := (if r c = Null then TextV now else r c)))
                                    (t_rows t)\<rparr>) d"
    by (auto simp: backfill_def split: option.splits)
  have "table_kept t (t\<lparr>t_rows := map (\<lambda>r. r(c := (if r c = Null then TextV now else r c)))
                                    (t_rows t)\<rparr>)"
    by (auto simp: table_kept_def)
  with t show "db_kept d d'"
    unfolding d' by (rule map_table_kept)
qed

lemma add_column_kept: "db_kept (snd r) (snd (add_column tbl col dflt r))"
  by (cases r) (auto simp: add_column_def db_kept_refl alter_add_kept(1)
      split: option.splits sum.splits)

lemma add_column_done:
  "fst (add_column tbl col dflt r) = None \<Longrightarrow>
     fst r = None \<and> has_column (snd (add_column tbl col dflt r)) tbl col"
  by (cases r) (auto simp: add_column_def alter_add_kept(2)
      split: option.splits sum.splits if_splits)

lemma add_created_at_kept: "db_kept (snd r) (snd (add_created_at tbl now r))"
  by (cases r) (auto simp: add_created_at_def db_kept_refl alter_add_kept(1)
      intro: db_kept_trans[OF alter_add_kept(1) backfill_kept]
      split: option.splits sum.splits)

lemma add_created_at_done:
  "fst (add_created_at tbl now r) = None \<Longrightarrow>
     fst r = None \<and> has_column (snd (add_created_at tbl now r)) tbl ''CreatedAt''"
  by (cases r) (auto simp: add_created_at_def
      dest: db_kept_has_column[OF backfill_kept alter_add_kept(2)]
      split: option.splits sum.splits if_splits)

lemma create_if_absent_kept: "db_kept d (create_if_absent nc d)"
  by (cases "find_table d (fst nc)")
     (auto simp: create_if_absent_def db_kept_def table_kept_refl find_table_append)

lemma create_if_absent_there: "find_table (create_if_absent nc d) (fst nc) \<noteq> None"
  by (cases "find_table d (fst nc)")
     (simp_all add: create_if_absent_def find_table_append, simp add: find_table_def)

lemma create_if_absent_skip: "find_table d (fst nc) \<noteq> None \<Longrightarrow> create_if_absent nc d = d"
  by (auto simp: create_if_absent_def split: option.splits)

lemma fold_create_kept: "db_kept d (fold create_if_absent tables d)"
proof (induction tables arbitrary: d)
  case Nil
  show ?case by (simp add: db_kept_refl)
next
  case (Cons nc tables)
  have "db_kept d (create_if_absent nc d)" by (rule create_if_absent_kept)
  moreover have "db_kept (create_if_absent nc d) (fold create_if_absent tables (create_if_absent nc d))"
    by (rule Cons.IH)
  ultimately show ?case by (auto intro: db_kept_trans)
qed

lemma db_kept_there: "db_kept d d' \<Longrightarrow> find_table d n \<noteq> None \<Longrightarrow> find_table d' n \<noteq> None"
  unfolding db_kept_def by force

lemma fold_create_there:
  "nc \<in> set tables \<Longrightarrow> find_table (fold create_if_absent tables d) (fst nc) \<noteq> None"
proof (induction tables arbitrary: d)
  case Nil
  then show ?case by simp
next
  case (Cons a tables)
  show ?case
  proof (cases "nc = a")
    case True
    have "find_table (create_if_absent a d) (fst a) \<noteq> None" by (rule create_if_absent_there)
    with True show ?thesis
      using db_kept_there[OF fold_create_kept] by simp
  next
    case False
    with Cons.prems have "nc \<in> set tables" by simp
    then show ?thesis using Cons.IH by simp
  qed
qed

lemma fold_create_skip:
  "\<forall>nc \<in> set tables. find_table d (fst nc) \<noteq> None \<Longrightarrow> fold create_if_absent tables d = d"
  by (induction tables) (auto simp: create_if_absent_skip)

lemma executescript_fst: "fst (executescript sch d) = None"
  by (simp add: executescript_def split: option.splits)

lemma executescript_kept: "db_kept d (snd (executescript sch d))"
  by (simp add: executescript_def db_kept_refl fold_create_kept split: option.splits)

lemma executescript_present: "present sch (snd (executescript sch d))"
  by (auto simp: executescript_def present_def fold_create_there split: option.splits)

lemma executescript_skip: "present sch d \<Longrightarrow> executescript sch d = (None, d)"
  by (auto simp: executescript_def present_def fold_create_skip split: option.splits)

lemma init_db_kept: "db_kept d (snd (init_db sch now d))"
proof -
  note step = db_kept_trans[OF _ add_column_kept] db_kept_trans[OF _ add_created_at_kept]
  show ?thesis
    unfolding init_db_def Let_def
    by (intro step executescript_kept)
qed

lemma fold_raised:
  "\<forall>f \<in> set fs. \<forall>e d. f (Some e, d) = (Some e, d) \<Longrightarrow>
     fold (\<lambda>f. f) fs (Some e, d) = (Some e, d)"
  by (induction fs) simp_all

lemma resumable_raised:
  assumes "list_all2 resumable fs fs'"
  shows "\<forall>g \<in> set fs. \<forall>e d. g (Some e, d) = (Some e, d)"
    and "\<forall>g \<in> set fs'. \<forall>e d. g (Some e, d) = (Some e, d)"
  using assms
  by (induction fs fs' rule: list_all2_induct) (auto simp: resumable_def)

lemma resumable_fold:
  assumes "list_all2 resumable fs fs'"
  shows "db_kept d (snd (fold (\<lambda>f. f) fs (None, d))) \<and>
         fold (\<lambda>f. f) fs' (None, snd (fold (\<lambda>f. f) fs (None, d))) = fold (\<lambda>f. f) fs (None, d)"
  using assms
proof (induction fs fs' arbitrary: d rule: list_all2_induct)
  case Nil
  show ?case by (simp add: db_kept_refl)
next
  case (Cons f fs f' fs')
  from Cons.hyps(1) obtain P where P:
    "(\<forall>e d. f (Some e, d) = (Some e, d) \<and> f' (Some e, d) = (Some e, d)) \<and>
     (\<forall>d. P d \<longrightarrow> f' (None, d) = (None, d)) \<and>
     (\<forall>d d'. f (None, d) = (None, d') \<longrightarrow> P d' \<and> db_kept d d') \<and>
     (\<forall>d e d'. f (None, d) = (Some e, d') \<longrightarrow> d' = d \<and> f' (None, d) = (Some e, d)) \<and>
     (\<forall>d d'. db_kept d d' \<longrightarrow> P d \<longrightarrow> P d')"
    unfolding resumable_def ..
  from P have skip: "P d \<Longrightarrow> f' (None, d) = (None, d)" for d by simp
  from P have fin: "f (None, d) = (None, d') \<Longrightarrow> P d' \<and> db_kept d d'" for d d' by simp
  from P have fails: "f (None, d) = (Some e, d') \<Longrightarrow> d' = d \<and> f' (None, d) = (Some e, d)"
    for d e d' by simp
  from P have mono: "db_kept d d' \<Longrightarrow> P d \<Longrightarrow> P d'" for d d' by simp
  have rest: "\<forall>g \<in> set fs. \<forall>e d. g (Some e, d) = (Some e, d)"
    using Cons.hyps(2) by (rule resumable_raised(1))
  have rest': "\<forall>g \<in> set fs'. \<forall>e d. g (Some e, d) = (Some e, d)"
    using Cons.hyps(2) by (rule resumable_raised(2))
  obtain eo d1 where step: "f (None, d) = (eo, d1)" by (cases "f (None, d)")
  show ?case
  proof (cases eo)
    case None
    with step fin [of d d1] have P1: "P d1" and k1: "db_kept d d1" by simp_all
    let ?r = "fold (\<lambda>f. f) fs (None, d1)"
    from Cons.IH [of d1] have k2: "db_kept d1 (snd ?r)"
      and again: "fold (\<lambda>f. f) fs' (None, snd ?r) = ?r" by blast+
    from k2 P1 have "P (snd ?r)" by (rule mono)
    then have "f' (None, snd ?r) = (None, snd ?r)" by (rule skip)
    with step None again k1 k2 show ?thesis
      by (auto intro: db_kept_trans)
  next
    case (Some e)
    with step fails [of d e d1] have d1: "d1 = d" and f': "f' (None, d) = (Some e, d)"
      by simp_all
    from step Some d1 have "fold (\<lambda>f. f) (f # fs) (None, d) = (Some e, d)"
      using fold_raised [OF rest] by simp
    moreover from f' have "fold (\<lambda>f. f) (f' # fs') (None, d) = (Some e, d)"
      using fold_raised [OF rest'] by simp
    ultimately show ?thesis by (simp add: db_kept_refl)
  qed
qed

lemma add_column_resumable: "resumable (add_column tbl col dflt) (add_column tbl col dflt)"
  unfolding resumable_def
proof (intro exI [of _ "\<lambda>d. has_column d tbl col"] conjI allI impI)
  fix e d d'
  show "add_column tbl col dflt (Some e, d) = (Some e, d)" by (simp add: add_column_def)
  show "add_column tbl col dflt (Some e, d) = (Some e, d)" by (simp add: add_column_def)
  show "add_column tbl col dflt (None, d) = (None, d)" if "has_column d tbl col"
    using that by (simp add: add_column_def)
  show "has_column d' tbl col" if "add_column tbl col dflt (None, d) = (None, d')"
    using add_column_done [of tbl col dflt "(None, d)"] that by simp
  show "db_kept d d'" if "add_column tbl col dflt (None, d) = (None, d')"
    using add_column_kept [of "(None, d)" tbl col dflt] that by simp
  show "d' = d" if "add_column tbl col dflt (None, d) = (Some e, d')"
    using that by (auto simp: add_column_def split: if_splits sum.splits)
  show "add_column tbl col dflt (None, d) = (Some e, d)"
    if "add_column tbl col dflt (None, d) = (Some e, d')"
    using that by (auto simp: add_column_def split: if_splits sum.splits)
  show "has_column d' tbl col" if "db_kept d d'" "has_column d tbl col"
    using that by (rule db_kept_has_column)
qed

lemma backfill_after_alter:
  assumes "alter_add tbl col dflt d = Inr d1"
  shows "\<exists>d2. backfill tbl col now d1 = Inr d2"
proof -
  from assms obtain t where t: "find_table d tbl = Some t"
    and d1: "d1 = map_table tbl (\<lambda>t. t\<lparr>t_cols := t_cols t @ [col],
                        t_rows := map (\<lambda>r. r(col := dflt)) (t_rows t)\<rparr>) d"
    by (auto simp: alter_add_def split: option.splits if_splits)
  have "find (\<lambda>c. lower c = lower col) (t_cols t @ [col]) \<noteq> None"
    by (auto simp: find_None_iff)
  then obtain c where "find (\<lambda>c. lower c = lower col) (t_cols t @ [col]) = Some c"
    by blast
  with t show ?thesis
    by (simp add: backfill_def d1 find_table_map_table)
qed

lemma add_created_at_resumable:
  "resumable (add_created_at tbl now) (add_created_at tbl now')"
  unfolding resumable_def
proof (intro exI [of _ "\<lambda>d. has_column d tbl ''CreatedAt''"] conjI allI impI)
  fix e d d'
  show "add_created_at tbl now (Some e, d) = (Some e, d)" by (simp add: add_created_at_def)
  show "add_created_at tbl now' (Some e, d) = (Some e, d)" by (simp add: add_created_at_def)
  show "add_created_at tbl now' (None, d) = (None, d)" if "has_column d tbl ''CreatedAt''"
    using that by (simp add: add_created_at_def)
  show "has_column d' tbl ''CreatedAt''" if "add_created_at tbl now (None, d) = (None, d')"
    using add_created_at_done [of tbl now "(None, d)"] that by simp
  show "db_kept d d'" if "add_created_at tbl now (None, d) = (None, d')"
    using add_created_at_kept [of "(None, d)" tbl now] that by simp
  have fail: "d' = d \<and> alter_add tbl ''CreatedAt'' Null d = Inl e \<and> \<not> has_column d tbl ''CreatedAt''"
    if "add_created_at tbl now (None, d) = (Some e, d')"
  proof (cases "alter_add tbl ''CreatedAt'' Null d")
    case (Inl a)
    with that show ?thesis by (auto simp: add_created_at_def split: if_splits)
  next
    case (Inr d1)
    from backfill_after_alter [OF Inr] obtain d2
      where "backfill tbl ''CreatedAt'' now d1 = Inr d2" by blast
    with that Inr show ?thesis by (auto simp: add_created_at_def split: if_splits)
  qed
  show "d' = d" if "add_created_at tbl now (None, d) = (Some e, d')"
    using fail [OF that] by simp
  show "add_created_at tbl now' (None, d) = (Some e, d)"
    if "add_created_at tbl now (None, d) = (Some e, d')"
    using fail [OF that] by (simp add: add_created_at_def)
  show "has_column d' tbl ''CreatedAt''" if "db_kept d d'" "has_column d tbl ''CreatedAt''"
    using that by (rule db_kept_has_column)
qed

lemma init_db_fold: "init_db sch now d = fold (\<lambda>f. f) (migrations now) (executescript sch d)"
  by (simp add: init_db_def Let_def migrations_def)

lemma migrations_resumable: "list_all2 resumable (migrations now) (migrations now')"
  by (simp add: migrations_def add_column_resumable add_created_at_resumable)

lemma init_db_twice: "init_db sch now' (snd (init_db sch now d)) = init_db sch now d"
proof -
  obtain d0 where d0: "executescript sch d = (None, d0)"
    using executescript_fst [of sch d] by (cases "executescript sch d") simp
  let ?r = "fold (\<lambda>f. f) (migrations now) (None, d0)"
  from resumable_fold [OF migrations_resumable, of d0 now now']
  have k: "db_kept d0 (snd ?r)"
    and again: "fold (\<lambda>f. f) (migrations now') (None, snd ?r) = ?r" by blast+
  have "present sch d0" using executescript_present [of sch d] d0 by simp
  with k have "present sch (snd ?r)" by (rule db_kept_present)
  then have "executescript sch (snd ?r) = (None, snd ?r)" by (rule executescript_skip)
  with again d0 show ?thesis by (simp add: init_db_fold)
qed

text \<open>
  Claim C5. Running \<open>init_db\<close> twice in a row gives the schema that one run gives, and a
  run keeps every table, column and row that was there, with every value that was not
  \<^verbatim>\<open>NULL\<close>: it only adds columns. The first half is stated for the whole result: a
  second run, at whatever time, ends as the first did, with the database that the first
  left. Both halves hold for every run, also one that stops at an exception.
\<close>

theorem init_db_idempotent_additive:
  "db_kept d (snd (init_db sch now d)) \<and>
   init_db sch now' (snd (init_db sch now d)) = init_db sch now d"
  using init_db_kept init_db_twice by blast

theorem init_db_idempotent_additive_witness:
  "fst (init_db (Some base_schema) clock legacy_db) = None \<and>
   map (\<lambda>nt. (fst nt, t_cols (snd nt))) (snd (init_db (Some base_schema) clock legacy_db)) =
     [(''User'', [''ID'', ''FirstName'', ''LastName'', ''Phone'', ''CreatedAt'']),
      (''menu'', [''ID'', ''Name'', ''Price'', ''Category'', ''IsAvailable'']),
      (''checkout'', [''ID'', ''UserID'', ''quantity'', ''ItemID'', ''ItemPrice'',
                      ''TotalPrice'', ''CreatedAt'', ''Status'', ''Notes''])] \<and>
   init_db (Some base_schema) later (snd (init_db (Some base_schema) clock legacy_db)) =
     init_db (Some base_schema) clock legacy_db \<and>
   db_kept legacy_db (snd (init_db (Some base_schema) clock legacy_db))"
proof -
  have ok: "fst (init_db (Some base_schema) clock legacy_db) = None"
    by (simp add: init_eval Let_def)
  have cols: "map (\<lambda>nt. (fst nt, t_cols (snd nt)))
       (snd (init_db (Some base_schema) clock legacy_db)) =
     [(''User'', [''ID'', ''FirstName'', ''LastName'', ''Phone'', ''CreatedAt'']),
      (''menu'', [''ID'', ''Name'', ''Price'', ''Category'', ''IsAvailable'']),
      (''checkout'', [''ID'', ''UserID'', ''quantity'', ''ItemID'', ''ItemPrice'',
                      ''TotalPrice'', ''CreatedAt'', ''Status'', ''Notes''])]"
    by (simp add: init_eval Let_def)
  from ok cols show ?thesis
    using init_db_idempotent_additive [of legacy_db "Some base_schema" clock later]
    by blast
qed

section \<open>The lookups of the handlers\<close>

text \<open>
  A lookup returns only for an identity that fits 64 bits, and then it is the search of
  the table; for any other identity it raises.
\<close>

lemma select_menu_Inr:
  "select_menu s i = Inr r \<Longrightarrow> int64 i \<and> find (\<lambda>r. m_ID r = i) (menu_rows s) = r"
  by (auto simp: select_menu_def bound_def split: if_splits)

lemma select_user_Inr:
  "select_user s i = Inr r \<Longrightarrow> int64 i \<and> find (\<lambda>r. u_ID r = i) (user_rows s) = r"
  by (auto simp: select_user_def bound_def split: if_splits)

lemma select_checkout_Inr:
  "select_checkout s i = Inr r \<Longrightarrow> int64 i \<and> find (\<lambda>r. c_ID r = i) (checkout_rows s) = r"
  by (auto simp: select_checkout_def bound_def split: if_splits)

lemma select_overflow:
  "\<not> int64 i \<Longrightarrow> select_menu s i = Inl OverflowError"
  "\<not> int64 i \<Longrightarrow> select_user s i = Inl OverflowError"
  "\<not> int64 i \<Longrightarrow> select_checkout s i = Inl OverflowError"
  by (simp_all add: select_menu_def select_user_def select_checkout_def bound_def)

section \<open>Deleting a menu item or a customer takes its orders along\<close>

lemma menu_delete_eq:
  "int64 i \<Longrightarrow>
     menu_delete i s =
       (Redirect success ItemDeleted,
        s\<lparr>checkout_rows := filter (\<lambda>r. c_ItemID r \<noteq> i) (checkout_rows s),
          menu_rows := filter (\<lambda>r. m_ID r \<noteq> i) (menu_rows s)\<rparr>)"
  by (simp add: menu_delete_def delete_checkout_by_item_def delete_menu_def bound_def
      finish_def list_ex_iff)

lemma customer_delete_eq:
  "int64 i \<Longrightarrow>
     customer_delete i s =
       (Redirect success CustomerDeleted,
        s\<lparr>checkout_rows := filter (\<lambda>r. c_UserID r \<noteq> i) (checkout_rows s),
          user_rows := filter (\<lambda>r. u_ID r \<noteq> i) (user_rows s)\<rparr>)"
  by (simp add: customer_delete_def delete_checkout_by_user_def delete_user_def bound_def
      finish_def list_ex_iff)

lemma length_filter_split:
  "length xs = length (filter (\<lambda>x. \<not> P x) xs) + length (filter P xs)"
  by (induction xs) auto

text \<open>
  Claim C4. Deleting a menu item or a customer that has N orders removes these N orders
  and then the item or customer itself; afterwards no order refers to it. The orders that
  remain are exactly the orders of the others, the handler reports success, and the
  statement that deletes the parent row never meets a foreign key that is still in use.
  SQLite keeps an identity in 64 bits, so the identity of a menu item or customer that
  exists satisfies \<open>int64\<close> (\<open>select_menu_Inr\<close>, \<open>select_user_Inr\<close>: what a lookup finds
  has such an identity); for any other integer the first \<^verbatim>\<open>DELETE\<close> cannot bind it.
\<close>

theorem cascade_delete_leaves_no_orphans:
  assumes "int64 i" and "int64 j"
    and "menu_delete i s = (r1, s1)" and "customer_delete j s = (r2, s2)"
  shows "r1 = Redirect success ItemDeleted \<and>
         checkout_rows s1 = filter (\<lambda>r. c_ItemID r \<noteq> i) (checkout_rows s) \<and>
         menu_rows s1 = filter (\<lambda>r. m_ID r \<noteq> i) (menu_rows s) \<and>
         user_rows s1 = user_rows s \<and>
         length (checkout_rows s) =
           length (checkout_rows s1) + length (filter (\<lambda>r. c_ItemID r = i) (checkout_rows s)) \<and>
         (\<forall>r \<in> set (checkout_rows s1). c_ItemID r \<noteq> i) \<and>
         (\<forall>r \<in> set (menu_rows s1). m_ID r \<noteq> i) \<and>
         r2 = Redirect success CustomerDeleted \<and>
         checkout_rows s2 = filter (\<lambda>r. c_UserID r \<noteq> j) (checkout_rows s) \<and>
         user_rows s2 = filter (\<lambda>r. u_ID r \<noteq> j) (user_rows s) \<and>
         menu_rows s2 = menu_rows s \<and>
         length (checkout_rows s) =
           length (checkout_rows s2) + length (filter (\<lambda>r. c_UserID r = j) (checkout_rows s)) \<and>
         (\<forall>r \<in> set (checkout_rows s2). c_UserID r \<noteq> j) \<and>
         (\<forall>r \<in> set (user_rows s2). u_ID r \<noteq> j)"
proof -
  from assms(1,3) have s1: "s1 = s\<lparr>checkout_rows := filter (\<lambda>r. c_ItemID r \<noteq> i) (checkout_rows s),
        menu_rows := filter (\<lambda>r. m_ID r \<noteq> i) (menu_rows s)\<rparr>" and r1: "r1 = Redirect success ItemDeleted"
    by (simp_all add: menu_delete_eq)
  from assms(2,4) have s2: "s2 = s\<lparr>checkout_rows := filter (\<lambda>r. c_UserID r \<noteq> j) (checkout_rows s),
        user_rows := filter (\<lambda>r. u_ID r \<noteq> j) (user_rows s)\<rparr>" and r2: "r2 = Redirect success CustomerDeleted"
    by (simp_all add: customer_delete_eq)
  show ?thesis
    using length_filter_split [of "checkout_rows s" "\<lambda>r. c_ItemID r = i"]
      length_filter_split [of "checkout_rows s" "\<lambda>r. c_UserID r = j"]
    by (simp add: s1 r1 s2 r2)
qed

theorem cascade_delete_leaves_no_orphans_witness:
  "int64 1 \<and>
   menu_delete 1 (shop True) =
     (Redirect success ItemDeleted,
      \<lparr>menu_rows = [coffee], user_rows = [ali, sara], checkout_rows = [order2],
       fk_declared = True\<rparr>) \<and>
   customer_delete 1 (shop True) =
     (Redirect success CustomerDeleted,
      \<lparr>menu_rows = [tea, coffee], user_rows = [sara], checkout_rows = [order2, order3],
       fk_declared = True\<rparr>) \<and>
   length (filter (\<lambda>r. c_ItemID r = 1) (checkout_rows (shop True))) = 2 \<and>
   c_ItemID order2 \<noteq> 1 \<and> c_UserID order2 \<noteq> 1 \<and> c_UserID order3 \<noteq> 1"
proof -
  have i: "int64 1" by (simp add: int64_def)
  have m: "menu_delete 1 (shop True) =
     (Redirect success ItemDeleted,
      \<lparr>menu_rows = [coffee], user_rows = [ali, sara], checkout_rows = [order2],
       fk_declared = True\<rparr>)"
    by (simp add: menu_delete_def sql_eval data_eval)
  have c: "customer_delete 1 (shop True) =
     (Redirect success CustomerDeleted,
      \<lparr>menu_rows = [tea, coffee], user_rows = [sara], checkout_rows = [order2, order3],
       fk_declared = True\<rparr>)"
    by (simp add: customer_delete_def sql_eval data_eval)
  have n: "length (filter (\<lambda>r. c_ItemID r = 1) (checkout_rows (shop True))) = 2"
    by (simp add: data_eval)
  from cascade_delete_leaves_no_orphans [OF i i m c] i m c n show ?thesis
    by simp
qed

section \<open>The dashboard counters\<close>

lemma sum_from_fits:
  "\<forall>n \<le> length vs. int64 (acc + sum_list (take n vs)) \<Longrightarrow>
     sum_from acc vs = Inr (acc + sum_list vs)"
proof (induction vs arbitrary: acc)
  case Nil
  show ?case by simp
next
  case (Cons v vs)
  have "Suc 0 \<le> length (v # vs)" by simp
  with Cons.prems have "int64 (acc + sum_list (take (Suc 0) (v # vs)))" by blast
  then have first: "int64 (acc + v)" by simp
  have "\<forall>n \<le> length vs. int64 (acc + v + sum_list (take n vs))"
  proof (intro allI impI)
    fix n assume "n \<le> length vs"
    then have "Suc n \<le> length (v # vs)" by simp
    with Cons.prems have "int64 (acc + sum_list (take (Suc n) (v # vs)))" by blast
    then show "int64 (acc + v + sum_list (take n vs))" by (simp add: add.assoc)
  qed
  then have "sum_from (acc + v) vs = Inr (acc + v + sum_list vs)" by (rule Cons.IH)
  with first show ?case by (simp add: add.assoc)
qed

lemma running_totals_fit_iff:
  "running_totals_fit vs \<longleftrightarrow> (\<forall>n \<le> length vs. int64 (sum_list (take n vs)))"
  by (auto simp: running_totals_fit_def list_all_iff less_Suc_eq_le)

lemma running_totals_fit_nonneg:
  assumes "\<forall>v \<in> set vs. 0 \<le> v" and "sum_list vs < 2 ^ 63"
  shows "running_totals_fit vs"
  unfolding running_totals_fit_iff
proof (intro allI impI)
  fix n assume "n \<le> length vs"
  have "vs = take n vs @ drop n vs" by simp
  then have "sum_list vs = sum_list (take n vs) + sum_list (drop n vs)"
    by (metis sum_list_append)
  moreover have "0 \<le> sum_list (drop n vs)"
    using assms(1) by (intro sum_list_nonneg) (meson in_set_dropD)
  moreover have "0 \<le> sum_list (take n vs)"
    using assms(1) by (intro sum_list_nonneg) (meson in_set_takeD)
  ultimately show "int64 (sum_list (take n vs))"
    using assms(2) by (simp add: int64_def)
qed

text \<open>
  Claim C9 says that the four counters of the dashboard are the number of customers, of
  menu items and of orders and the sum of the stored \<open>TotalPrice\<close> of all orders. The sum
  is taken by SQLite in 64 bits: in the shop below, which four requests build from the
  empty one, the two totals add up to more than fits, the query raises and the dashboard
  gets no counters at all.
\<close>

theorem dashboard_sum_overflows:
  "customer_create clock
      (form_of [(''first_name'', ''Ali''), (''last_name'', ''Rezaei''),
                (''phone'', ''9121234567'')]) empty_shop
     = (Redirect success CustomerAdded, empty_shop\<lparr>user_rows := [ali]\<rparr>) \<and>
   menu_create (form_of [(''name'', ''Gold''), (''price'', ''9223372036854775807'')])
      (empty_shop\<lparr>user_rows := [ali]\<rparr>)
     = (Redirect success ItemAdded, empty_shop\<lparr>user_rows := [ali], menu_rows := [gold]\<rparr>) \<and>
   order_create clock (form_of [(''user_id'', ''1''), (''item_id'', ''1'')])
      (empty_shop\<lparr>user_rows := [ali], menu_rows := [gold]\<rparr>)
     = (Redirect success OrderAdded, gold_shop\<lparr>checkout_rows := [gold_order 1]\<rparr>) \<and>
   order_create clock (form_of [(''user_id'', ''1''), (''item_id'', ''1'')])
      (gold_shop\<lparr>checkout_rows := [gold_order 1]\<rparr>)
     = (Redirect success OrderAdded, gold_shop) \<and>
   fetch_dashboard_data gold_shop = Inl OperationalError"
  by (simp add: customer_create_def menu_create_def order_create_def fetch_dashboard_data_def
      sql_sum_def Let_def text_eval sql_eval data_eval)

text \<open>
  Claim C9, amended. When the running total of the stored \<open>TotalPrice\<close> values, taken in
  the order of the table, stays within 64 bits (as it does when no value is negative and
  their sum is below \<open>2 ^ 63\<close>: \<open>running_totals_fit_nonneg\<close>), the dashboard query returns,
  and its four counters are the number of customers, of menu items and of orders and the
  sum of the stored \<open>TotalPrice\<close> of all orders; with no orders the sum is 0.
\<close>

theorem dashboard_counters:
  assumes "running_totals_fit (map c_TotalPrice (checkout_rows s))"
  shows "fetch_dashboard_data s =
           Inr (list_menu s, list_user s, list_checkout s,
                \<lparr>customers = int (length (user_rows s)), items = int (length (menu_rows s)),
                 orders = int (length (checkout_rows s)),
                 revenue = sum_list (map c_TotalPrice (checkout_rows s))\<rparr>) \<and>
         (checkout_rows s = [] \<longrightarrow> sum_list (map c_TotalPrice (checkout_rows s)) = 0)"
proof -
  from assms have "sum_from 0 (map c_TotalPrice (checkout_rows s))
      = Inr (0 + sum_list (map c_TotalPrice (checkout_rows s)))"
    unfolding running_totals_fit_iff by (intro sum_from_fits) simp
  then show ?thesis
    by (simp add: fetch_dashboard_data_def Let_def sql_count_def sql_sum_def coalesce_def)
qed

theorem dashboard_counters_witness:
  "running_totals_fit (map c_TotalPrice (checkout_rows (shop True))) \<and>
   running_totals_fit (map c_TotalPrice (checkout_rows empty_shop)) \<and>
   fetch_dashboard_data (shop True) =
     Inr (list_menu (shop True), list_user (shop True), list_checkout (shop True),
          \<lparr>customers = 2, items = 2, orders = 3, revenue = 95000\<rparr>) \<and>
   fetch_dashboard_data empty_shop =
     Inr ([], [], [], \<lparr>customers = 0, items = 0, orders = 0, revenue = 0\<rparr>)"
proof -
  have a: "running_totals_fit (map c_TotalPrice (checkout_rows (shop True)))"
    by (rule running_totals_fit_nonneg) (simp_all add: data_eval)
  have b: "running_totals_fit (map c_TotalPrice (checkout_rows empty_shop))"
    by (rule running_totals_fit_nonneg) (simp_all add: data_eval)
  from dashboard_counters [OF a] dashboard_counters [OF b] a b show ?thesis
    by (simp add: data_eval list_menu_def list_user_def list_checkout_def)
qed

section \<open>Rejected requests\<close>

lemma finish_not_danger: "fst (finish m s r) \<noteq> Redirect danger m'"
  by (simp add: finish_def split: sum.splits)

lemma menu_create_rejected:
  "fst (menu_create f s) = Redirect danger m \<Longrightarrow> snd (menu_create f s) = s"
  by (simp add: menu_create_def Let_def finish_not_danger split: if_splits option.splits)

lemma menu_update_rejected:
  "fst (menu_update i f s) = Redirect danger m \<Longrightarrow> snd (menu_update i f s) = s"
  by (simp add: menu_update_def Let_def finish_not_danger
      split: if_splits option.splits sum.splits)

lemma customer_create_rejected:
  "fst (customer_create now f s) = Redirect danger m \<Longrightarrow> snd (customer_create now f s) = s"
  by (auto simp: customer_create_def Let_def finish_not_danger split: if_splits option.splits)

lemma customer_update_rejected:
  "fst (customer_update i f s) = Redirect danger m \<Longrightarrow> snd (customer_update i f s) = s"
  by (auto simp: customer_update_def Let_def finish_not_danger
      split: if_splits option.splits sum.splits)

lemma order_create_rejected:
  "fst (order_create now f s) = Redirect danger m \<Longrightarrow> snd (order_create now f s) = s"
  by (simp add: order_create_def Let_def finish_not_danger
      split: if_splits option.splits sum.splits prod.splits)

lemma order_update_rejected:
  "fst (order_update i f s) = Redirect danger m \<Longrightarrow> snd (order_update i f s) = s"
  by (simp add: order_update_def Let_def finish_not_danger
      split: if_splits option.splits sum.splits prod.splits)

text \<open>The inputs that the handlers reject, with the message each one gets.\<close>

lemma menu_name_rejected:
  assumes "strip (form_get_or f ''name'' []) = []"
  shows "menu_create f s = (Redirect danger ItemNameEmpty, s)"
    and "select_menu s i = Inr (Some item) \<Longrightarrow>
           menu_update i f s = (Redirect danger ItemNameEmpty, s)"
  using assms by (auto simp: menu_create_def menu_update_def Let_def)

lemma customer_name_rejected:
  assumes "strip (form_get_or f ''first_name'' []) = [] \<or>
           strip (form_get_or f ''last_name'' []) = []"
  shows "customer_create now f s = (Redirect danger NameRequired, s)"
    and "select_user s i = Inr (Some row) \<Longrightarrow>
           customer_update i f s = (Redirect danger NameRequired, s)"
  using assms by (auto simp: customer_create_def customer_update_def Let_def)

lemma customer_phone_rejected:
  assumes "strip (form_get_or f ''first_name'' []) \<noteq> []"
    and "strip (form_get_or f ''last_name'' []) \<noteq> []"
    and "case py_int (strip (form_get_or f ''phone'' [])) of
           None \<Rightarrow> True | Some p \<Rightarrow> p \<le> 0"
  shows "customer_create now f s = (Redirect danger PhoneInvalid, s)"
    and "select_user s i = Inr (Some row) \<Longrightarrow>
           customer_update i f s = (Redirect danger PhoneInvalid, s)"
  using assms
  by (auto simp: customer_create_def customer_update_def Let_def split: option.splits)

lemma order_numbers_None:
  "order_numbers a b c = None \<longleftrightarrow>
     py_int a = None \<or> py_int b = None \<or>
     (case py_int c of None \<Rightarrow> True | Some q \<Rightarrow> q \<le> 0)"
  by (auto simp: order_numbers_def split: option.splits)

lemma order_numbers_rejected:
  assumes "order_numbers (strip (form_get_or f ''user_id'' []))
             (strip (form_get_or f ''item_id'' []))
             (strip (form_get_or f ''quantity'' (str ''1''))) = None"
  shows "order_create now f s = (Redirect danger OrderInvalid, s)"
    and "select_checkout s i = Inr (Some row) \<Longrightarrow>
           order_update i f s = (Redirect danger OrderInvalid, s)"
  using assms by (auto simp: order_create_def order_update_def Let_def)

text \<open>
  Claim C3. When a create or update of a menu item, a customer or an order ends in a
  validation failure (an empty required text, a price, phone or quantity that is not an
  integer or is out of range, an order for a menu item that does not exist), the store is
  exactly what it was: nothing is inserted, updated or deleted.
\<close>

theorem rejected_request_leaves_store:
  "(fst (menu_create f s) = Redirect danger m \<longrightarrow> snd (menu_create f s) = s) \<and>
   (fst (menu_update i f s) = Redirect danger m \<longrightarrow> snd (menu_update i f s) = s) \<and>
   (fst (customer_create now f s) = Redirect danger m \<longrightarrow> snd (customer_create now f s) = s) \<and>
   (fst (customer_update i f s) = Redirect danger m \<longrightarrow> snd (customer_update i f s) = s) \<and>
   (fst (order_create now f s) = Redirect danger m \<longrightarrow> snd (order_create now f s) = s) \<and>
   (fst (order_update i f s) = Redirect danger m \<longrightarrow> snd (order_update i f s) = s)"
proof (intro conjI impI)
  show "snd (menu_create f s) = s" if "fst (menu_create f s) = Redirect danger m"
    using that by (rule menu_create_rejected)
  show "snd (menu_update i f s) = s" if "fst (menu_update i f s) = Redirect danger m"
    using that by (rule menu_update_rejected)
  show "snd (customer_create now f s) = s"
    if "fst (customer_create now f s) = Redirect danger m"
    using that by (rule customer_create_rejected)
  show "snd (customer_update i f s) = s" if "fst (customer_update i f s) = Redirect danger m"
    using that by (rule customer_update_rejected)
  show "snd (order_create now f s) = s" if "fst (order_create now f s) = Redirect danger m"
    using that by (rule order_create_rejected)
  show "snd (order_update i f s) = s" if "fst (order_update i f s) = Redirect danger m"
    using that by (rule order_update_rejected)
qed

theorem rejected_request_leaves_store_witness:
  "fst (menu_create (form_of [(''name'', ''   ''), (''price'', ''15000'')]) (shop True))
     = Redirect danger ItemNameEmpty \<and>
   snd (menu_create (form_of [(''name'', ''   ''), (''price'', ''15000'')]) (shop True))
     = shop True \<and>
   fst (menu_update 1 (form_of [(''name'', ''Tea''), (''price'', ''-5'')]) (shop True))
     = Redirect danger PriceInvalid \<and>
   snd (menu_update 1 (form_of [(''name'', ''Tea''), (''price'', ''-5'')]) (shop True))
     = shop True \<and>
   fst (customer_create clock
          (form_of [(''first_name'', ''Ali''), (''last_name'', ''Rezaei''), (''phone'', ''0'')])
          (shop True))
     = Redirect danger PhoneInvalid \<and>
   snd (customer_create clock
          (form_of [(''first_name'', ''Ali''), (''last_name'', ''Rezaei''), (''phone'', ''0'')])
          (shop True))
     = shop True \<and>
   fst (customer_update 2 (form_of [(''first_name'', ''Sara''), (''phone'', ''9351112233'')])
          (shop True))
     = Redirect danger NameRequired \<and>
   snd (customer_update 2 (form_of [(''first_name'', ''Sara''), (''phone'', ''9351112233'')])
          (shop True))
     = shop True \<and>
   fst (order_create clock
          (form_of [(''user_id'', ''1''), (''item_id'', ''2''), (''quantity'', ''1.5'')])
          (shop True))
     = Redirect danger OrderInvalid \<and>
   snd (order_create clock
          (form_of [(''user_id'', ''1''), (''item_id'', ''2''), (''quantity'', ''1.5'')])
          (shop True))
     = shop True \<and>
   fst (order_update 3
          (form_of [(''user_id'', ''2''), (''item_id'', ''9''), (''quantity'', ''2'')])
          (shop True))
     = Redirect danger ItemMissing \<and>
   snd (order_update 3
          (form_of [(''user_id'', ''2''), (''item_id'', ''9''), (''quantity'', ''2'')])
          (shop True))
     = shop True"
proof -
  have 1: "fst (menu_create (form_of [(''name'', ''   ''), (''price'', ''15000'')]) (shop True))
     = Redirect danger ItemNameEmpty"
    by (simp add: menu_create_def Let_def text_eval)
  have 2: "fst (menu_update 1 (form_of [(''name'', ''Tea''), (''price'', ''-5'')]) (shop True))
     = Redirect danger PriceInvalid"
    by (simp add: menu_update_def Let_def text_eval sql_eval data_eval)
  have 3: "fst (customer_create clock
          (form_of [(''first_name'', ''Ali''), (''last_name'', ''Rezaei''), (''phone'', ''0'')])
          (shop True))
     = Redirect danger PhoneInvalid"
    by (simp add: customer_create_def Let_def text_eval)
  have 4: "fst (customer_update 2 (form_of [(''first_name'', ''Sara''), (''phone'', ''9351112233'')])
          (shop True))
     = Redirect danger NameRequired"
    by (simp add: customer_update_def Let_def text_eval sql_eval data_eval)
  have 5: "fst (order_create clock
          (form_of [(''user_id'', ''1''), (''item_id'', ''2''), (''quantity'', ''1.5'')])
          (shop True))
     = Redirect danger OrderInvalid"
    by (simp add: order_create_def Let_def text_eval sql_eval data_eval)
  have 6: "fst (order_update 3
          (form_of [(''user_id'', ''2''), (''item_id'', ''9''), (''quantity'', ''2'')])
          (shop True))
     = Redirect danger ItemMissing"
    by (simp add: order_update_def Let_def text_eval sql_eval data_eval)
  note c = rejected_request_leaves_store
  note r1 = c [THEN conjunct1, THEN mp, OF 1]
  note r2 = c [THEN conjunct2, THEN conjunct1, THEN mp, OF 2]
  note r3 = c [THEN conjunct2, THEN conjunct2, THEN conjunct1, THEN mp, OF 3]
  note r4 = c [THEN conjunct2, THEN conjunct2, THEN conjunct2, THEN conjunct1, THEN mp, OF 4]
  note r5 = c [THEN conjunct2, THEN conjunct2, THEN conjunct2, THEN conjunct2,
               THEN conjunct1, THEN mp, OF 5]
  note r6 = c [THEN conjunct2, THEN conjunct2, THEN conjunct2, THEN conjunct2,
               THEN conjunct2, THEN mp, OF 6]
  show ?thesis
    by (intro conjI) (rule 1 2 3 4 5 6 r1 r2 r3 r4 r5 r6)+
qed

section \<open>Requests that name an unknown identity\<close>

lemma find_None_filter: "find P xs = None \<Longrightarrow> filter (\<lambda>x. \<not> P x) xs = xs"
  by (induction xs) (auto split: if_splits)

lemma delete_checkout_unknown:
  "select_checkout s i = Inr None \<Longrightarrow> delete_checkout i s = Inr s"
  by (drule select_checkout_Inr) (simp add: delete_checkout_def bound_def find_None_filter)

lemma menu_delete_unknown:
  assumes "select_menu s i = Inr None"
  shows "menu_delete i s =
       (Redirect success ItemDeleted,
        s\<lparr>checkout_rows := filter (\<lambda>r. c_ItemID r \<noteq> i) (checkout_rows s)\<rparr>)"
proof -
  from select_menu_Inr [OF assms] have i: "int64 i"
    and none: "find (\<lambda>r. m_ID r = i) (menu_rows s) = None" by simp_all
  from none have "filter (\<lambda>r. m_ID r \<noteq> i) (menu_rows s) = menu_rows s"
    by (rule find_None_filter)
  with i show ?thesis by (simp add: menu_delete_eq)
qed

lemma customer_delete_unknown:
  assumes "select_user s i = Inr None"
  shows "customer_delete i s =
       (Redirect success CustomerDeleted,
        s\<lparr>checkout_rows := filter (\<lambda>r. c_UserID r \<noteq> i) (checkout_rows s)\<rparr>)"
proof -
  from select_user_Inr [OF assms] have i: "int64 i"
    and none: "find (\<lambda>r. u_ID r = i) (user_rows s) = None" by simp_all
  from none have "filter (\<lambda>r. u_ID r \<noteq> i) (user_rows s) = user_rows s"
    by (rule find_None_filter)
  with i show ?thesis by (simp add: customer_delete_eq)
qed

text \<open>
  Claim C7 says that an update or a delete of an identity that has no row ends in the
  not-found outcome and leaves the store unchanged. The update handlers do so for an
  identity that fits 64 bits. The delete handlers never look the row up: they run their
  \<^verbatim>\<open>DELETE\<close> statements and report success. Deleting a customer removes the orders that
  name that customer first, and in a store without declared foreign keys an order can name
  a customer that has no row (\<open>order_create\<close> stores \<open>stray_order\<close> for customer 7): then
  the delete of that unknown customer changes the store. So does the delete of an unknown
  menu item in a store that holds an order for it; the handlers write no such order on
  their own, since they look the menu item up, but the database file may hold one. For an
  identity that does not fit 64 bits the first statement of every handler raises
  \<^verbatim>\<open>OverflowError\<close>, and the outcome is the server error, for updates too.
\<close>

theorem delete_unknown_not_reported:
  "select_checkout empty_shop 999999 = Inr None \<and>
   order_delete 999999 empty_shop = (Redirect success OrderDeleted, empty_shop) \<and>
   fst (order_delete 999999 empty_shop) \<noteq> NotFound \<and>
   select_menu (shop True) 7 = Inr None \<and>
   fst (menu_delete 7 (shop True)) = Redirect success ItemDeleted \<and>
   select_user (shop True) 7 = Inr None \<and>
   fst (customer_delete 7 (shop True)) = Redirect success CustomerDeleted \<and>
   order_create clock (form_of [(''user_id'', ''7''), (''item_id'', ''1'')]) (shop False)
     = (Redirect success OrderAdded,
        (shop False)\<lparr>checkout_rows := [order1, order2, order3, stray_order]\<rparr>) \<and>
   select_user ((shop False)\<lparr>checkout_rows := [order1, order2, order3, stray_order]\<rparr>) 7
     = Inr None \<and>
   customer_delete 7 ((shop False)\<lparr>checkout_rows := [order1, order2, order3, stray_order]\<rparr>)
     = (Redirect success CustomerDeleted, shop False) \<and>
   shop False \<noteq> (shop False)\<lparr>checkout_rows := [order1, order2, order3, stray_order]\<rparr> \<and>
   select_menu ((shop False)\<lparr>checkout_rows :=
        [order1, order2, order3, stray_order\<lparr>c_UserID := 1, c_ItemID := 7\<rparr>]\<rparr>) 7
     = Inr None \<and>
   menu_delete 7 ((shop False)\<lparr>checkout_rows :=
        [order1, order2, order3, stray_order\<lparr>c_UserID := 1, c_ItemID := 7\<rparr>]\<rparr>)
     = (Redirect success ItemDeleted, shop False) \<and>
   menu_update 9223372036854775808 (form_of [(''name'', ''Tea''), (''price'', ''15000'')])
      (shop True) = (ServerError OverflowError, shop True) \<and>
   customer_update 9223372036854775808
      (form_of [(''first_name'', ''Ali''), (''last_name'', ''Rezaei''),
                (''phone'', ''9121234567'')])
      (shop True) = (ServerError OverflowError, shop True) \<and>
   order_update 9223372036854775808 (form_of [(''user_id'', ''1''), (''item_id'', ''1'')])
      (shop True) = (ServerError OverflowError, shop True) \<and>
   menu_delete 9223372036854775808 (shop True) = (ServerError OverflowError, shop True) \<and>
   customer_delete 9223372036854775808 (shop True) = (ServerError OverflowError, shop True) \<and>
   order_delete 9223372036854775808 (shop True) = (ServerError OverflowError, shop True)"
  by (simp add: order_delete_def menu_delete_def customer_delete_def order_create_def
      menu_update_def customer_update_def order_update_def Let_def text_eval sql_eval data_eval)

text \<open>
  Claim C7, amended. Take an identity within the signed 64-bit range that has no row. An
  update of it ends in the not-found outcome, which is not a validation failure, and
  leaves the store unchanged. A delete of it reports success. Deleting an unknown order
  leaves the store unchanged; deleting an unknown menu item or customer removes the orders
  that refer to that identity and nothing else, so it leaves the store unchanged when no
  order does. \<open>select_menu s i = Inr None\<close> says both that \<open>i\<close> fits 64 bits and that no
  menu item has it, and likewise for the other two tables.
\<close>

theorem unknown_identity:
  "(select_menu s i = Inr None \<longrightarrow> menu_update i f s = (NotFound, s)) \<and>
   (select_user s i = Inr None \<longrightarrow> customer_update i f s = (NotFound, s)) \<and>
   (select_checkout s i = Inr None \<longrightarrow> order_update i f s = (NotFound, s)) \<and>
   NotFound \<noteq> Redirect danger m \<and>
   (select_checkout s i = Inr None \<longrightarrow> order_delete i s = (Redirect success OrderDeleted, s)) \<and>
   (select_menu s i = Inr None \<longrightarrow>
      menu_delete i s =
        (Redirect success ItemDeleted,
         s\<lparr>checkout_rows := filter (\<lambda>r. c_ItemID r \<noteq> i) (checkout_rows s)\<rparr>)) \<and>
   (select_user s i = Inr None \<longrightarrow>
      customer_delete i s =
        (Redirect success CustomerDeleted,
         s\<lparr>checkout_rows := filter (\<lambda>r. c_UserID r \<noteq> i) (checkout_rows s)\<rparr>)) \<and>
   (select_menu s i = Inr None \<and> (\<forall>r \<in> set (checkout_rows s). c_ItemID r \<noteq> i) \<longrightarrow>
      menu_delete i s = (Redirect success ItemDeleted, s)) \<and>
   (select_user s i = Inr None \<and> (\<forall>r \<in> set (checkout_rows s). c_UserID r \<noteq> i) \<longrightarrow>
      customer_delete i s = (Redirect success CustomerDeleted, s)) \<and>
   (select_menu s i = Inr None \<longleftrightarrow> int64 i \<and> (\<forall>r \<in> set (menu_rows s). m_ID r \<noteq> i)) \<and>
   (select_user s i = Inr None \<longleftrightarrow> int64 i \<and> (\<forall>r \<in> set (user_rows s). u_ID r \<noteq> i)) \<and>
   (select_checkout s i = Inr None \<longleftrightarrow>
      int64 i \<and> (\<forall>r \<in> set (checkout_rows s). c_ID r \<noteq> i))"
proof (intro conjI impI)
  show "menu_update i f s = (NotFound, s)" if "select_menu s i = Inr None"
    using that by (simp add: menu_update_def Let_def)
  show "customer_update i f s = (NotFound, s)" if "select_user s i = Inr None"
    using that by (simp add: customer_update_def Let_def)
  show "order_update i f s = (NotFound, s)" if "select_checkout s i = Inr None"
    using that by (simp add: order_update_def Let_def)
  show "NotFound \<noteq> Redirect danger m" by simp
  show "order_delete i s = (Redirect success OrderDeleted, s)"
    if "select_checkout s i = Inr None"
    using that by (simp add: order_delete_def delete_checkout_unknown finish_def)
  show "menu_delete i s =
        (Redirect success ItemDeleted,
         s\<lparr>checkout_rows := filter (\<lambda>r. c_ItemID r \<noteq> i) (checkout_rows s)\<rparr>)"
    if "select_menu s i = Inr None"
    using that by (rule menu_delete_unknown)
  show "customer_delete i s =
        (Redirect success CustomerDeleted,
         s\<lparr>checkout_rows := filter (\<lambda>r. c_UserID r \<noteq> i) (checkout_rows s)\<rparr>)"
    if "select_user s i = Inr None"
    using that by (rule customer_delete_unknown)
  show "menu_delete i s = (Redirect success ItemDeleted, s)"
    if "select_menu s i = Inr None \<and> (\<forall>r \<in> set (checkout_rows s). c_ItemID r \<noteq> i)"
  proof -
    from that have "filter (\<lambda>r. c_ItemID r \<noteq> i) (checkout_rows s) = checkout_rows s"
      by (simp add: filter_id_conv)
    with that show ?thesis by (simp add: menu_delete_unknown)
  qed
  show "customer_delete i s = (Redirect success CustomerDeleted, s)"
    if "select_user s i = Inr None \<and> (\<forall>r \<in> set (checkout_rows s). c_UserID r \<noteq> i)"
  proof -
    from that have "filter (\<lambda>r. c_UserID r \<noteq> i) (checkout_rows s) = checkout_rows s"
      by (simp add: filter_id_conv)
    with that show ?thesis by (simp add: customer_delete_unknown)
  qed
  show "select_menu s i = Inr None \<longleftrightarrow> int64 i \<and> (\<forall>r \<in> set (menu_rows s). m_ID r \<noteq> i)"
    by (auto simp: select_menu_def bound_def find_None_iff)
  show "select_user s i = Inr None \<longleftrightarrow> int64 i \<and> (\<forall>r \<in> set (user_rows s). u_ID r \<noteq> i)"
    by (auto simp: select_user_def bound_def find_None_iff)
  show "select_checkout s i = Inr None \<longleftrightarrow>
      int64 i \<and> (\<forall>r \<in> set (checkout_rows s). c_ID r \<noteq> i)"
    by (auto simp: select_checkout_def bound_def find_None_iff)
qed

theorem unknown_identity_witness:
  "select_menu (shop True) 7 = Inr None \<and> select_user (shop True) 7 = Inr None \<and>
   select_checkout (shop True) 7 = Inr None \<and>
   map c_ItemID (checkout_rows (shop True)) = [1, 2, 1] \<and>
   map c_UserID (checkout_rows (shop True)) = [1, 2, 2] \<and>
   menu_update 7 (form_of [(''name'', ''Tea''), (''price'', ''15000'')]) (shop True)
     = (NotFound, shop True) \<and>
   customer_update 7 (form_of [(''name'', ''Tea''), (''price'', ''15000'')]) (shop True)
     = (NotFound, shop True) \<and>
   order_update 7 (form_of [(''name'', ''Tea''), (''price'', ''15000'')]) (shop True)
     = (NotFound, shop True) \<and>
   order_delete 7 (shop True) = (Redirect success OrderDeleted, shop True) \<and>
   menu_delete 7 (shop True) = (Redirect success ItemDeleted, shop True) \<and>
   customer_delete 7 (shop True) = (Redirect success CustomerDeleted, shop True)"
proof -
  have m: "select_menu (shop True) 7 = Inr None" by (simp add: sql_eval data_eval)
  have u: "select_user (shop True) 7 = Inr None" by (simp add: sql_eval data_eval)
  have c: "select_checkout (shop True) 7 = Inr None" by (simp add: sql_eval data_eval)
  have ci: "\<forall>r \<in> set (checkout_rows (shop True)). c_ItemID r \<noteq> 7" by (simp add: data_eval)
  have cu: "\<forall>r \<in> set (checkout_rows (shop True)). c_UserID r \<noteq> 7" by (simp add: data_eval)
  have mi: "map c_ItemID (checkout_rows (shop True)) = [1, 2, 1]" by (simp add: data_eval)
  have mu: "map c_UserID (checkout_rows (shop True)) = [1, 2, 2]" by (simp add: data_eval)
  show ?thesis
    using m u c ci cu mi mu
      unknown_identity [of "shop True" 7 "form_of [(''name'', ''Tea''), (''price'', ''15000'')]"]
    by simp
qed

section \<open>Orders and the customer they name\<close>

lemma order_create_missing_item:
  assumes "order_numbers (strip (form_get_or f ''user_id'' []))
             (strip (form_get_or f ''item_id'' []))
             (strip (form_get_or f ''quantity'' (str ''1''))) = Some (u, i, q)"
    and "select_menu s i = Inr None"
  shows "order_create now f s = (Redirect danger ItemMissing, s)"
  using assms by (simp add: order_create_def Let_def)

lemma order_create_unknown_customer:
  assumes "order_numbers (strip (form_get_or f ''user_id'' []))
             (strip (form_get_or f ''item_id'' []))
             (strip (form_get_or f ''quantity'' (str ''1''))) = Some (u, i, q)"
    and "select_menu s i = Inr (Some item)"
    and "select_user s u = Inr None"
    and "list_all int64 [q, price_or_0 item, price_or_0 item * q]"
  shows "fst (order_create now f s) =
           (if fk_declared s then ServerError IntegrityError else Redirect success OrderAdded)"
proof -
  from select_user_Inr [OF assms(3)] have "\<not> list_ex (\<lambda>r. u_ID r = u) (user_rows s)"
    and "int64 u"
    by (simp_all add: find_None_iff list_ex_iff)
  moreover from select_menu_Inr [OF assms(2)] have "int64 i" by simp
  ultimately show ?thesis
    using assms(1,2,4)
    by (simp add: order_create_def Let_def insert_checkout_def fk_parents_exist_def
        bound_def finish_def)
qed

text \<open>
  Claim C1 says that an order create or update naming a customer or a menu item that does
  not exist is rejected as a validation failure, with nothing written. The handlers look
  the menu item up and reject the request when it is missing (\<open>order_create_missing_item\<close>),
  but they never look the customer up (\<open>order_create_unknown_customer\<close>). For customer 7,
  who does not exist: where the schema declares the foreign keys the statement raises
  \<^verbatim>\<open>IntegrityError\<close> and the request ends in the 500 page; where it does not, the order is
  written with the dangling reference.
\<close>

theorem order_for_unknown_customer:
  "select_user (shop True) 7 = Inr None \<and> select_user (shop False) 7 = Inr None \<and>
   order_create clock
      (form_of [(''user_id'', ''7''), (''item_id'', ''1''), (''quantity'', ''3'')]) (shop True)
     = (ServerError IntegrityError, shop True) \<and>
   order_create clock
      (form_of [(''user_id'', ''7''), (''item_id'', ''1''), (''quantity'', ''3'')]) (shop False)
     = (Redirect success OrderAdded,
        (shop False)\<lparr>checkout_rows := [order1, order2, order3,
           \<lparr>c_ID = 4, c_UserID = 7, c_quantity = 3, c_ItemID = 1, c_ItemPrice = 15000,
            c_TotalPrice = 45000, c_Status = default_status, c_Notes = None,
            c_CreatedAt = clock\<rparr>]\<rparr>) \<and>
   order_update 2
      (form_of [(''user_id'', ''7''), (''item_id'', ''2''), (''quantity'', ''1'')]) (shop True)
     = (ServerError IntegrityError, shop True) \<and>
   order_update 2
      (form_of [(''user_id'', ''7''), (''item_id'', ''2''), (''quantity'', ''1'')]) (shop False)
     = (Redirect success OrderUpdated,
        (shop False)\<lparr>checkout_rows := [order1, order2\<lparr>c_UserID := 7\<rparr>, order3]\<rparr>)"
  by (simp add: order_create_def order_update_def Let_def text_eval sql_eval data_eval)

section \<open>The price snapshot of an order\<close>

lemma find_Some_ex: "find P xs = Some x \<Longrightarrow> \<exists>y \<in> set xs. P y"
  by (induction xs) (auto split: if_splits)

lemma update_checkout_rows:
  "update_checkout u q i p t st n oid s = Inr s' \<Longrightarrow>
     checkout_rows s' =
       map (\<lambda>r. if c_ID r = oid
                 then r\<lparr>c_UserID := u, c_quantity := q, c_ItemID := i, c_ItemPrice := p,
                        c_TotalPrice := t, c_Status := st, c_Notes := n\<rparr>
                 else r) (checkout_rows s)"
  by (cases "fk_declared s \<and> list_ex (\<lambda>r. c_ID r = oid) (checkout_rows s)
           \<and> \<not> fk_parents_exist s u i")
     (auto simp: update_checkout_def bound_def split: if_splits)

lemma order_update_written:
  assumes "order_numbers (strip (form_get_or f ''user_id'' []))
             (strip (form_get_or f ''item_id'' []))
             (strip (form_get_or f ''quantity'' (str ''1''))) = Some (u, i, Q)"
    and "select_menu s i = Inr (Some item)"
    and "order_update oid f s = (Redirect success m, s')"
  shows "(\<exists>old. select_checkout s oid = Inr (Some old)) \<and>
         update_checkout u Q i (price_or_0 item) (price_or_0 item * Q)
           (strip (form_get_or f ''status'' default_status))
           (blank_to_none (strip (form_get_or f ''notes'' []))) oid s = Inr s'"
proof (cases "select_checkout s oid")
  case (Inl e)
  with assms(3) show ?thesis by (simp add: order_update_def Let_def)
next
  case (Inr found)
  show ?thesis
  proof (cases found)
    case None
    with Inr assms(3) show ?thesis by (simp add: order_update_def Let_def)
  next
    case (Some old)
    with Inr assms show ?thesis
      by (cases "update_checkout u Q i (price_or_0 item) (price_or_0 item * Q)
             (strip (form_get_or f ''status'' default_status))
             (blank_to_none (strip (form_get_or f ''notes'' []))) oid s")
         (simp_all add: order_update_def Let_def finish_def)
  qed
qed

lemma menu_update_keeps_orders: "checkout_rows (snd (menu_update j g s)) = checkout_rows s"
  by (simp add: menu_update_def Let_def update_menu_def bound_def finish_def
      split: option.splits sum.splits)

lemma order_create_succeeds:
  assumes "order_numbers (strip (form_get_or f ''user_id'' []))
             (strip (form_get_or f ''item_id'' []))
             (strip (form_get_or f ''quantity'' (str ''1''))) = Some (u, i, q)"
    and "select_menu s i = Inr (Some item)"
    and "fk_declared s \<longrightarrow> (\<exists>row. select_user s u = Inr (Some row))"
    and "list_all int64 [u, q, price_or_0 item, price_or_0 item * q]"
  shows "fst (order_create now f s) = Redirect success OrderAdded"
proof -
  from select_menu_Inr [OF assms(2)] have "list_ex (\<lambda>r. m_ID r = i) (menu_rows s)"
    and "int64 i"
    by (auto simp: list_ex_iff dest: find_Some_ex)
  moreover from assms(3) have "fk_declared s \<longrightarrow> list_ex (\<lambda>r. u_ID r = u) (user_rows s)"
    by (auto simp: list_ex_iff dest!: select_user_Inr dest: find_Some_ex)
  ultimately show ?thesis
    using assms(1,2,4)
    by (simp add: order_create_def Let_def insert_checkout_def fk_parents_exist_def
        bound_def finish_def)
qed

text \<open>
  Claim C2. An order created for a menu item whose price is P, with quantity Q, stores
  \<open>ItemPrice\<close> P and \<open>TotalPrice\<close> P times Q, and Q is positive; a later update of the menu
  item, whatever it sets the price to, leaves the order's row as it is.
\<close>

theorem order_create_snapshots_price:
  assumes "order_numbers (strip (form_get_or f ''user_id'' []))
             (strip (form_get_or f ''item_id'' []))
             (strip (form_get_or f ''quantity'' (str ''1''))) = Some (u, i, Q)"
    and "select_menu s i = Inr (Some item)"
    and "m_Price item = Some P"
    and "order_create now f s = (Redirect success OrderAdded, s')"
  shows "0 < Q \<and>
         (\<exists>row. checkout_rows s' = checkout_rows s @ [row] \<and> c_UserID row = u \<and>
                c_ItemID row = i \<and> c_quantity row = Q \<and>
                c_ItemPrice row = P \<and> c_TotalPrice row = P * Q) \<and>
         checkout_rows (snd (menu_update j g s')) = checkout_rows s'"
proof -
  from assms(1) have q: "0 < Q"
    by (auto simp: order_numbers_def split: option.splits if_splits)
  from assms have "\<exists>row. checkout_rows s' = checkout_rows s @ [row] \<and> c_UserID row = u \<and>
                c_ItemID row = i \<and> c_quantity row = Q \<and>
                c_ItemPrice row = P \<and> c_TotalPrice row = P * Q"
    by (auto simp: order_create_def Let_def insert_checkout_def price_or_0_def
        bound_def finish_def split: if_splits)
  with q show ?thesis by (simp add: menu_update_keeps_orders)
qed

theorem order_create_snapshots_price_witness:
  "order_numbers (str ''1'') (str ''1'') (str ''3'') = Some (1, 1, 3) \<and>
   select_menu ((shop True)\<lparr>checkout_rows := []\<rparr>) 1 = Inr (Some tea) \<and>
   m_Price tea = Some 15000 \<and>
   order_create clock
      (form_of [(''user_id'', ''1''), (''item_id'', ''1''), (''quantity'', ''3'')])
      ((shop True)\<lparr>checkout_rows := []\<rparr>)
     = (Redirect success OrderAdded, (shop True)\<lparr>checkout_rows := [order1]\<rparr>) \<and>
   c_ItemPrice order1 = 15000 \<and> c_TotalPrice order1 = 15000 * 3 \<and>
   menu_update 1 (form_of [(''name'', ''Tea''), (''price'', ''18000'')])
      ((shop True)\<lparr>checkout_rows := [order1]\<rparr>)
     = (Redirect success ItemUpdated,
        (shop True)\<lparr>checkout_rows := [order1],
                     menu_rows := [tea\<lparr>m_Price := Some 18000, m_IsAvailable := 0\<rparr>, coffee]\<rparr>) \<and>
   checkout_rows (snd (menu_update 1 (form_of [(''name'', ''Tea''), (''price'', ''18000'')])
      ((shop True)\<lparr>checkout_rows := [order1]\<rparr>))) = [order1]"
proof -
  have n: "order_numbers
             (strip (form_get_or
                (form_of [(''user_id'', ''1''), (''item_id'', ''1''), (''quantity'', ''3'')])
                ''user_id'' []))
             (strip (form_get_or
                (form_of [(''user_id'', ''1''), (''item_id'', ''1''), (''quantity'', ''3'')])
                ''item_id'' []))
             (strip (form_get_or
                (form_of [(''user_id'', ''1''), (''item_id'', ''1''), (''quantity'', ''3'')])
                ''quantity'' (str ''1''))) = Some (1, 1, 3)"
    by (simp add: text_eval sql_eval)
  have n': "order_numbers (str ''1'') (str ''1'') (str ''3'') = Some (1, 1, 3)"
    by (simp add: text_eval sql_eval)
  have i: "select_menu ((shop True)\<lparr>checkout_rows := []\<rparr>) 1 = Inr (Some tea)"
    by (simp add: sql_eval data_eval)
  have p: "m_Price tea = Some 15000"
    by (simp add: tea_def)
  have c: "order_create clock
      (form_of [(''user_id'', ''1''), (''item_id'', ''1''), (''quantity'', ''3'')])
      ((shop True)\<lparr>checkout_rows := []\<rparr>)
     = (Redirect success OrderAdded, (shop True)\<lparr>checkout_rows := [order1]\<rparr>)"
    by (simp add: order_create_def Let_def text_eval sql_eval data_eval)
  have o: "c_ItemPrice order1 = 15000 \<and> c_TotalPrice order1 = 15000 * 3"
    by (simp add: order1_def)
  have m: "menu_update 1 (form_of [(''name'', ''Tea''), (''price'', ''18000'')])
      ((shop True)\<lparr>checkout_rows := [order1]\<rparr>)
     = (Redirect success ItemUpdated,
        (shop True)\<lparr>checkout_rows := [order1],
                     menu_rows := [tea\<lparr>m_Price := Some 18000, m_IsAvailable := 0\<rparr>, coffee]\<rparr>)"
    by (simp add: menu_update_def Let_def text_eval sql_eval data_eval)
  from order_create_snapshots_price [OF n i p c,
      of 1 "form_of [(''name'', ''Tea''), (''price'', ''18000'')]"]
  have "checkout_rows (snd (menu_update 1 (form_of [(''name'', ''Tea''), (''price'', ''18000'')])
      ((shop True)\<lparr>checkout_rows := [order1]\<rparr>))) = [order1]"
    by simp
  with n' i p c o m show ?thesis by blast
qed

text \<open>
  Claim C10. Every order update that goes through writes the current price of the menu
  item it names into \<open>ItemPrice\<close> and that price times the new quantity into \<open>TotalPrice\<close>,
  whatever else the request changes. So updating an order after the price of its menu
  item has changed replaces the price the order was created with.
\<close>

theorem order_update_rewrites_snapshot:
  assumes "order_numbers (strip (form_get_or f ''user_id'' []))
             (strip (form_get_or f ''item_id'' []))
             (strip (form_get_or f ''quantity'' (str ''1''))) = Some (u, i, Q)"
    and "select_menu s i = Inr (Some item)"
    and "order_update oid f s = (Redirect success OrderUpdated, s')"
  shows "checkout_rows s' =
           map (\<lambda>r. if c_ID r = oid
                     then r\<lparr>c_UserID := u, c_quantity := Q, c_ItemID := i,
                            c_ItemPrice := price_or_0 item,
                            c_TotalPrice := price_or_0 item * Q,
                            c_Status := strip (form_get_or f ''status'' default_status),
                            c_Notes := blank_to_none (strip (form_get_or f ''notes'' []))\<rparr>
                     else r) (checkout_rows s) \<and>
         (\<exists>r \<in> set (checkout_rows s'). c_ID r = oid) \<and>
         (\<forall>r \<in> set (checkout_rows s'). c_ID r = oid \<longrightarrow>
            c_ItemPrice r = price_or_0 item \<and> c_TotalPrice r = price_or_0 item * Q)"
proof -
  define g :: "checkout_row \<Rightarrow> checkout_row" where "g = (\<lambda>r. if c_ID r = oid
                     then r\<lparr>c_UserID := u, c_quantity := Q, c_ItemID := i,
                            c_ItemPrice := price_or_0 item,
                            c_TotalPrice := price_or_0 item * Q,
                            c_Status := strip (form_get_or f ''status'' default_status),
                            c_Notes := blank_to_none (strip (form_get_or f ''notes'' []))\<rparr>
                     else r)"
  note w = order_update_written [OF assms]
  from w obtain r0 where r0: "r0 \<in> set (checkout_rows s)" "c_ID r0 = oid"
    by (auto dest!: select_checkout_Inr dest: find_Some_ex)
  from w have rows: "checkout_rows s' = map g (checkout_rows s)"
    unfolding g_def by (intro update_checkout_rows) simp
  have "g r0 \<in> set (checkout_rows s')"
    using r0(1) by (simp add: rows)
  moreover have "c_ID (g r0) = oid"
    using r0(2) by (simp add: g_def)
  ultimately have some: "\<exists>r \<in> set (checkout_rows s'). c_ID r = oid"
    by blast
  have every: "c_ItemPrice r = price_or_0 item \<and> c_TotalPrice r = price_or_0 item * Q"
    if "r \<in> set (checkout_rows s')" "c_ID r = oid" for r
  proof -
    from that(1) obtain r1 where r1: "r = g r1" by (auto simp: rows)
    show ?thesis
    proof (cases "c_ID r1 = oid")
      case True
      then show ?thesis by (simp add: r1 g_def)
    next
      case False
      with that(2) show ?thesis by (simp add: r1 g_def)
    qed
  qed
  show ?thesis
  proof (intro conjI)
    show "checkout_rows s' =
           map (\<lambda>r. if c_ID r = oid
                     then r\<lparr>c_UserID := u, c_quantity := Q, c_ItemID := i,
                            c_ItemPrice := price_or_0 item,
                            c_TotalPrice := price_or_0 item * Q,
                            c_Status := strip (form_get_or f ''status'' default_status),
                            c_Notes := blank_to_none (strip (form_get_or f ''notes'' []))\<rparr>
                     else r) (checkout_rows s)"
      using rows unfolding g_def .
    show "\<exists>r \<in> set (checkout_rows s'). c_ID r = oid" by (rule some)
    show "\<forall>r \<in> set (checkout_rows s'). c_ID r = oid \<longrightarrow>
            c_ItemPrice r = price_or_0 item \<and> c_TotalPrice r = price_or_0 item * Q"
      using every by blast
  qed
qed

theorem order_update_rewrites_snapshot_witness:
  "select_menu ((shop True)\<lparr>menu_rows := [tea\<lparr>m_Price := Some 18000\<rparr>, coffee]\<rparr>) 1
     = Inr (Some (tea\<lparr>m_Price := Some 18000\<rparr>)) \<and>
   c_ItemPrice order1 = 15000 \<and> c_TotalPrice order1 = 45000 \<and>
   order_update 1
      (form_of [(''user_id'', ''1''), (''item_id'', ''1''), (''quantity'', ''3'')])
      ((shop True)\<lparr>menu_rows := [tea\<lparr>m_Price := Some 18000\<rparr>, coffee]\<rparr>)
     = (Redirect success OrderUpdated,
        (shop True)\<lparr>menu_rows := [tea\<lparr>m_Price := Some 18000\<rparr>, coffee],
           checkout_rows :=
             [order1\<lparr>c_ItemPrice := 18000, c_TotalPrice := 54000\<rparr>, order2, order3]\<rparr>) \<and>
   c_ID (order1\<lparr>c_ItemPrice := 18000, c_TotalPrice := 54000\<rparr>) = 1 \<and>
   c_ItemPrice (order1\<lparr>c_ItemPrice := 18000, c_TotalPrice := 54000\<rparr>) = 18000 \<and>
   c_TotalPrice (order1\<lparr>c_ItemPrice := 18000, c_TotalPrice := 54000\<rparr>) = 18000 * 3"
proof -
  have n: "order_numbers
             (strip (form_get_or
                (form_of [(''user_id'', ''1''), (''item_id'', ''1''), (''quantity'', ''3'')])
                ''user_id'' []))
             (strip (form_get_or
                (form_of [(''user_id'', ''1''), (''item_id'', ''1''), (''quantity'', ''3'')])
                ''item_id'' []))
             (strip (form_get_or
                (form_of [(''user_id'', ''1''), (''item_id'', ''1''), (''quantity'', ''3'')])
                ''quantity'' (str ''1''))) = Some (1, 1, 3)"
    by (simp add: text_eval sql_eval)
  have i: "select_menu ((shop True)\<lparr>menu_rows := [tea\<lparr>m_Price := Some 18000\<rparr>, coffee]\<rparr>) 1
     = Inr (Some (tea\<lparr>m_Price := Some 18000\<rparr>))"
    by (simp add: sql_eval data_eval)
  have o: "c_ItemPrice order1 = 15000 \<and> c_TotalPrice order1 = 45000"
    by (simp add: order1_def)
  have p: "price_or_0 (tea\<lparr>m_Price := Some 18000\<rparr>) = 18000"
    by (simp add: price_or_0_def)
  have u: "order_update 1
      (form_of [(''user_id'', ''1''), (''item_id'', ''1''), (''quantity'', ''3'')])
      ((shop True)\<lparr>menu_rows := [tea\<lparr>m_Price := Some 18000\<rparr>, coffee]\<rparr>)
     = (Redirect success OrderUpdated,
        (shop True)\<lparr>menu_rows := [tea\<lparr>m_Price := Some 18000\<rparr>, coffee],
           checkout_rows :=
             [order1\<lparr>c_ItemPrice := 18000, c_TotalPrice := 54000\<rparr>, order2, order3]\<rparr>)"
    by (simp add: order_update_def Let_def text_eval sql_eval data_eval)
  have k: "c_ID (order1\<lparr>c_ItemPrice := 18000, c_TotalPrice := 54000\<rparr>) = 1"
    by (simp add: order1_def)
  from order_update_rewrites_snapshot [OF n i u]
  have "\<forall>r \<in> set [order1\<lparr>c_ItemPrice := 18000, c_TotalPrice := 54000\<rparr>, order2, order3].
      c_ID r = 1 \<longrightarrow> c_ItemPrice r = 18000 \<and> c_TotalPrice r = 18000 * 3"
    by (simp add: p shop_def)
  with k have "c_ItemPrice (order1\<lparr>c_ItemPrice := 18000, c_TotalPrice := 54000\<rparr>) = 18000 \<and>
      c_TotalPrice (order1\<lparr>c_ItemPrice := 18000, c_TotalPrice := 54000\<rparr>) = 18000 * 3"
    by simp
  with i o u k show ?thesis by blast
qed

section \<open>Creating and updating menu items\<close>

lemma fold_max_start: "(x :: int) \<le> fold max xs x"
proof (induction xs arbitrary: x)
  case Nil
  show ?case by simp
next
  case (Cons a xs)
  have "x \<le> max a x" by simp
  also have "max a x \<le> fold max xs (max a x)" by (rule Cons.IH)
  finally show ?case by simp
qed

lemma fold_max_mem: "y \<in> set xs \<Longrightarrow> y \<le> fold max xs (x :: int)"
proof (induction xs arbitrary: x)
  case Nil
  then show ?case by simp
next
  case (Cons a xs)
  show ?case
  proof (cases "y = a")
    case True
    have "a \<le> max a x" by simp
    also have "max a x \<le> fold max xs (max a x)" by (rule fold_max_start)
    finally show ?thesis using True by simp
  next
    case False
    with Cons.prems have "y \<in> set xs" by simp
    then have "y \<le> fold max xs (max a x)" by (rule Cons.IH)
    then show ?thesis by simp
  qed
qed

lemma fold_max_ge: "y \<in> set (x # xs) \<Longrightarrow> y \<le> fold max xs (x :: int)"
  using fold_max_start [of x xs] fold_max_mem [of y xs x] by auto

lemma next_id_fresh: "next_id ids \<notin> set ids"
proof (cases ids)
  case Nil
  then show ?thesis by simp
next
  case (Cons x xs)
  show ?thesis
  proof
    assume "next_id ids \<in> set ids"
    with Cons have "fold max xs x + 1 \<le> fold max xs x"
      using fold_max_ge [of "next_id ids" x xs] by (simp add: next_id_def)
    then show False by simp
  qed
qed

lemma strip_default_category: "strip default_category = default_category"
  by (simp add: text_eval)

lemma items_listing:
  "fetch_dashboard_data s = Inr (its, us, os, st) \<Longrightarrow> its = list_menu s"
  by (auto simp: fetch_dashboard_data_def Let_def split: sum.splits)

lemma list_menu_append:
  "set (list_menu (s\<lparr>menu_rows := menu_rows s @ [row]\<rparr>)) = insert row (set (list_menu s))"
  "length (list_menu (s\<lparr>menu_rows := menu_rows s @ [row]\<rparr>)) = Suc (length (list_menu s))"
  by (simp_all add: list_menu_def)

text \<open>
  Claim C8 says that a menu create with a name and a price that is an integer, not
  negative, adds a row with these values to the listing, and that an omitted category and
  an omitted availability get their defaults, a generic label and true. The category does
  get the label; the availability is 1 only for the value \<^verbatim>\<open>on\<close> that a ticked check box
  sends, so it is 0 when the field is omitted. And a price of \<open>2 ^ 63\<close> or more passes the
  validation but does not fit the 64 bits of SQLite: the \<^verbatim>\<open>INSERT\<close> raises
  \<^verbatim>\<open>OverflowError\<close> and no row is added.
\<close>

theorem menu_create_omitted_availability:
  "form_of [(''name'', ''Tea''), (''price'', ''15000'')] ''is_available'' = None \<and>
   form_of [(''name'', ''Tea''), (''price'', ''15000'')] ''category'' = None \<and>
   menu_create (form_of [(''name'', ''Tea''), (''price'', ''15000'')]) empty_shop =
     (Redirect success ItemAdded,
      empty_shop\<lparr>menu_rows :=
        [\<lparr>m_ID = 1, m_Name = str ''Tea'', m_Price = Some 15000,
          m_Category = default_category, m_IsAvailable = 0\<rparr>]\<rparr>) \<and>
   py_int (str ''9223372036854775808'') = Some 9223372036854775808 \<and>
   menu_create (form_of [(''name'', ''Tea''), (''price'', ''9223372036854775808''),
                         (''is_available'', ''on'')]) empty_shop =
     (ServerError OverflowError, empty_shop)"
  by (simp add: menu_create_def Let_def text_eval sql_eval data_eval)

text \<open>
  Claim C8, amended. A menu create whose name is not empty after trimming and whose price
  is read by \<^verbatim>\<open>int\<close> as an integer that is not negative and is below \<open>2 ^ 63\<close> reports
  success and adds exactly one row: its identity is new, its name is the trimmed name and
  its price the given price, and the menu listing of the dashboard gains this row and no
  other. The category is the trimmed input, and the generic label when the field is
  omitted or empty. \<open>IsAvailable\<close> is 1 when the field \<^verbatim>\<open>is_available\<close> has the value
  \<^verbatim>\<open>on\<close> and 0 otherwise, so 0 when the field is omitted.
\<close>

theorem menu_create_adds_row:
  assumes "strip (form_get_or f ''name'' []) \<noteq> []"
    and "py_int (strip (form_get_or f ''price'' (str ''0''))) = Some p"
    and "0 \<le> p" and "p < 2 ^ 63"
    and "menu_create f s = (r, s')"
  shows "r = Redirect success ItemAdded \<and>
         user_rows s' = user_rows s \<and> checkout_rows s' = checkout_rows s \<and>
         (\<exists>row. menu_rows s' = menu_rows s @ [row] \<and>
            m_ID row \<notin> set (map m_ID (menu_rows s)) \<and>
            m_Name row = strip (form_get_or f ''name'' []) \<and>
            m_Price row = Some p \<and>
            m_Category row = strip (form_get_or f ''category'' default_category) \<and>
            (f ''category'' = None \<or> f ''category'' = Some [] \<longrightarrow>
               m_Category row = default_category) \<and>
            m_IsAvailable row = (if f ''is_available'' = Some (str ''on'') then 1 else 0) \<and>
            (f ''is_available'' = None \<longrightarrow> m_IsAvailable row = 0) \<and>
            set (list_menu s') = insert row (set (list_menu s)) \<and>
            length (list_menu s') = Suc (length (list_menu s)))"
proof -
  define row where "row =
     \<lparr>m_ID = next_id (map m_ID (menu_rows s)), m_Name = strip (form_get_or f ''name'' []),
      m_Price = Some p, m_Category = strip (form_get_or f ''category'' default_category),
      m_IsAvailable = (if f ''is_available'' = Some (str ''on'') then 1 else 0)\<rparr>"
  from assms(3,4) have p: "int64 p" by (simp add: int64_def)
  have a: "int64 (if f ''is_available'' = Some (str ''on'') then 1 else 0)"
    by (simp add: int64_def)
  from assms(1,2,3,5) p a have r: "r = Redirect success ItemAdded"
    and s': "s' = s\<lparr>menu_rows := menu_rows s @ [row]\<rparr>"
    by (simp_all add: menu_create_def Let_def insert_menu_def row_def bound_def finish_def)
  have fresh: "m_ID row \<notin> set (map m_ID (menu_rows s))"
    unfolding row_def using next_id_fresh [of "map m_ID (menu_rows s)"] by simp
  have cat: "f ''category'' = None \<or> f ''category'' = Some [] \<longrightarrow>
               m_Category row = default_category"
    by (auto simp: row_def form_get_or_def strip_default_category)
  have row_facts: "menu_rows s' = menu_rows s @ [row] \<and>
            m_ID row \<notin> set (map m_ID (menu_rows s)) \<and>
            m_Name row = strip (form_get_or f ''name'' []) \<and>
            m_Price row = Some p \<and>
            m_Category row = strip (form_get_or f ''category'' default_category) \<and>
            (f ''category'' = None \<or> f ''category'' = Some [] \<longrightarrow>
               m_Category row = default_category) \<and>
            m_IsAvailable row = (if f ''is_available'' = Some (str ''on'') then 1 else 0) \<and>
            (f ''is_available'' = None \<longrightarrow> m_IsAvailable row = 0) \<and>
            set (list_menu s') = insert row (set (list_menu s)) \<and>
            length (list_menu s') = Suc (length (list_menu s))"
    using fresh cat by (simp add: s' list_menu_append) (simp add: row_def)
  have frame: "user_rows s' = user_rows s \<and> checkout_rows s' = checkout_rows s"
    by (simp add: s')
  from row_facts have "\<exists>row. menu_rows s' = menu_rows s @ [row] \<and>
            m_ID row \<notin> set (map m_ID (menu_rows s)) \<and>
            m_Name row = strip (form_get_or f ''name'' []) \<and>
            m_Price row = Some p \<and>
            m_Category row = strip (form_get_or f ''category'' default_category) \<and>
            (f ''category'' = None \<or> f ''category'' = Some [] \<longrightarrow>
               m_Category row = default_category) \<and>
            m_IsAvailable row = (if f ''is_available'' = Some (str ''on'') then 1 else 0) \<and>
            (f ''is_available'' = None \<longrightarrow> m_IsAvailable row = 0) \<and>
            set (list_menu s') = insert row (set (list_menu s)) \<and>
            length (list_menu s') = Suc (length (list_menu s))"
    by (rule exI)
  with r frame show ?thesis by (intro conjI) simp_all
qed

theorem menu_create_adds_row_witness:
  "strip (form_get_or (form_of [(''name'', ''  Tea ''), (''price'', ''15000''),
                                (''is_available'', ''on'')]) ''name'' []) \<noteq> [] \<and>
   py_int (strip (form_get_or (form_of [(''name'', ''  Tea ''), (''price'', ''15000''),
                                (''is_available'', ''on'')]) ''price'' (str ''0'')))
     = Some 15000 \<and>
   (0 :: int) \<le> 15000 \<and> (15000 :: int) < 2 ^ 63 \<and>
   menu_create (form_of [(''name'', ''  Tea ''), (''price'', ''15000''),
                         (''is_available'', ''on'')]) empty_shop
     = (Redirect success ItemAdded, empty_shop\<lparr>menu_rows := [tea]\<rparr>) \<and>
   set (list_menu (empty_shop\<lparr>menu_rows := [tea]\<rparr>)) = {tea} \<and>
   length (list_menu (empty_shop\<lparr>menu_rows := [tea]\<rparr>)) = 1"
proof -
  let ?f = "form_of [(''name'', ''  Tea ''), (''price'', ''15000''), (''is_available'', ''on'')]"
  have n: "strip (form_get_or ?f ''name'' []) \<noteq> []"
    by (simp add: text_eval)
  have p: "py_int (strip (form_get_or ?f ''price'' (str ''0''))) = Some 15000"
    by (simp add: text_eval)
  have z: "(0 :: int) \<le> 15000" by simp
  have b: "(15000 :: int) < 2 ^ 63" by simp
  have c: "menu_create ?f empty_shop
     = (Redirect success ItemAdded, empty_shop\<lparr>menu_rows := [tea]\<rparr>)"
    by (simp add: menu_create_def Let_def text_eval sql_eval data_eval)
  from menu_create_adds_row [OF n p z b c]
  have "set (list_menu (empty_shop\<lparr>menu_rows := [tea]\<rparr>)) = {tea} \<and>
        length (list_menu (empty_shop\<lparr>menu_rows := [tea]\<rparr>)) = 1"
    by (auto simp: empty_shop_def list_menu_def)
  with n p z b c show ?thesis by blast
qed

text \<open>
  Claim C6 says that a menu create or update whose price input is negative or is not an
  integer is rejected as a validation failure and leaves the listing as it was. An empty
  price is not an integer, yet the handlers read an absent or empty price as \<^verbatim>\<open>"0"\<close> and
  write the row with price 0. An update of an item that does not exist ends in the
  not-found outcome before the price is looked at, and an update whose identity does not
  fit 64 bits ends in the server error, because the \<^verbatim>\<open>SELECT\<close> that looks the item up
  raises \<^verbatim>\<open>OverflowError\<close>.
\<close>

theorem menu_price_empty_or_item_unknown:
  "form_of [(''name'', ''Tea''), (''price'', [])] ''price'' = Some [] \<and>
   py_int [] = None \<and>
   menu_create (form_of [(''name'', ''Tea''), (''price'', [])]) empty_shop =
     (Redirect success ItemAdded,
      empty_shop\<lparr>menu_rows :=
        [\<lparr>m_ID = 1, m_Name = str ''Tea'', m_Price = Some 0,
          m_Category = default_category, m_IsAvailable = 0\<rparr>]\<rparr>) \<and>
   list_menu (snd (menu_create (form_of [(''name'', ''Tea''), (''price'', [])]) empty_shop))
     \<noteq> list_menu empty_shop \<and>
   py_int (str ''-5'') = Some (- 5) \<and>
   select_menu (shop True) 7 = Inr None \<and>
   menu_update 7 (form_of [(''name'', ''Tea''), (''price'', ''-5'')]) (shop True) =
     (NotFound, shop True) \<and>
   menu_update 9223372036854775808 (form_of [(''name'', ''Tea''), (''price'', ''-5'')])
     (shop True) = (ServerError OverflowError, shop True)"
  by (simp add: menu_create_def menu_update_def Let_def list_menu_def
      text_eval sql_eval data_eval)

text \<open>
  Claim C6, amended. Take the price input after an absent or empty value has been replaced
  by \<^verbatim>\<open>"0"\<close> and white space has been trimmed, and let it be negative or not an integer.
  Then a menu create is rejected as a validation failure. A menu update is rejected as a
  validation failure when its item exists; it ends in the not-found outcome when its
  identity fits 64 bits and no item has it; it ends in the server error when its identity
  does not fit 64 bits. In every one of these cases the store, hence the menu listing, is
  what it was.
\<close>

theorem menu_bad_price_rejected:
  assumes "case py_int (strip (form_get_or f ''price'' (str ''0''))) of
             None \<Rightarrow> True | Some p \<Rightarrow> p < 0"
  shows "(\<exists>m. menu_create f s = (Redirect danger m, s)) \<and>
         list_menu (snd (menu_create f s)) = list_menu s \<and>
         (select_menu s i = Inr (Some item) \<longrightarrow>
            (\<exists>m. menu_update i f s = (Redirect danger m, s))) \<and>
         (select_menu s i = Inr None \<longrightarrow> menu_update i f s = (NotFound, s)) \<and>
         (\<not> int64 i \<longrightarrow> menu_update i f s = (ServerError OverflowError, s)) \<and>
         snd (menu_update i f s) = s \<and>
         list_menu (snd (menu_update i f s)) = list_menu s \<and>
         (select_menu s i = Inr (Some item) \<longleftrightarrow>
            int64 i \<and> find (\<lambda>r. m_ID r = i) (menu_rows s) = Some item) \<and>
         (select_menu s i = Inr None \<longleftrightarrow>
            int64 i \<and> (\<forall>r \<in> set (menu_rows s). m_ID r \<noteq> i))"
proof -
  have c: "\<exists>m. menu_create f s = (Redirect danger m, s)"
    using assms
    by (cases "py_int (strip (form_get_or f ''price'' (str ''0'')))")
       (simp_all add: menu_create_def Let_def)
  have u: "\<exists>m. menu_update i f s = (Redirect danger m, s)"
    if "select_menu s i = Inr (Some item)" for item
    using assms that
    by (cases "py_int (strip (form_get_or f ''price'' (str ''0'')))")
       (auto simp: menu_update_def Let_def)
  have n: "menu_update i f s = (NotFound, s)" if "select_menu s i = Inr None"
    using that by (simp add: menu_update_def Let_def)
  have v: "menu_update i f s = (ServerError OverflowError, s)" if "\<not> int64 i"
    using that by (simp add: menu_update_def Let_def select_overflow)
  have u': "snd (menu_update i f s) = s"
  proof (cases "select_menu s i")
    case (Inl e)
    then show ?thesis by (simp add: menu_update_def Let_def)
  next
    case (Inr found)
    show ?thesis
    proof (cases found)
      case None
      with Inr n show ?thesis by simp
    next
      case (Some a)
      with Inr u obtain m where "menu_update i f s = (Redirect danger m, s)" by blast
      then show ?thesis by simp
    qed
  qed
  from c obtain m where "menu_create f s = (Redirect danger m, s)" by blast
  then have c': "snd (menu_create f s) = s" by simp
  have e1: "select_menu s i = Inr (Some item) \<longleftrightarrow>
            int64 i \<and> find (\<lambda>r. m_ID r = i) (menu_rows s) = Some item"
    by (auto simp: select_menu_def bound_def)
  have e2: "select_menu s i = Inr None \<longleftrightarrow>
            int64 i \<and> (\<forall>r \<in> set (menu_rows s). m_ID r \<noteq> i)"
    by (auto simp: select_menu_def bound_def find_None_iff)
  show ?thesis
  proof (intro conjI impI)
    show "\<exists>m. menu_create f s = (Redirect danger m, s)" by (rule c)
    show "list_menu (snd (menu_create f s)) = list_menu s" by (simp add: c')
    show "\<exists>m. menu_update i f s = (Redirect danger m, s)"
      if "select_menu s i = Inr (Some item)" using that by (rule u)
    show "menu_update i f s = (NotFound, s)" if "select_menu s i = Inr None"
      using that by (rule n)
    show "menu_update i f s = (ServerError OverflowError, s)" if "\<not> int64 i"
      using that by (rule v)
    show "snd (menu_update i f s) = s" by (rule u')
    show "list_menu (snd (menu_update i f s)) = list_menu s" by (simp add: u')
    show "select_menu s i = Inr (Some item) \<longleftrightarrow>
            int64 i \<and> find (\<lambda>r. m_ID r = i) (menu_rows s) = Some item" by (rule e1)
    show "select_menu s i = Inr None \<longleftrightarrow>
            int64 i \<and> (\<forall>r \<in> set (menu_rows s). m_ID r \<noteq> i)" by (rule e2)
  qed
qed

theorem menu_bad_price_rejected_witness:
  "(case py_int (strip (form_get_or (form_of [(''name'', ''Tea''), (''price'', ''12.5'')])
                         ''price'' (str ''0''))) of
      None \<Rightarrow> True | Some p \<Rightarrow> p < 0) \<and>
   select_menu (shop True) 1 = Inr (Some tea) \<and>
   select_menu (shop True) 7 = Inr None \<and>
   \<not> int64 9223372036854775808 \<and>
   menu_create (form_of [(''name'', ''Tea''), (''price'', ''12.5'')]) (shop True)
     = (Redirect danger PriceInvalid, shop True) \<and>
   menu_update 1 (form_of [(''name'', ''Tea''), (''price'', ''12.5'')]) (shop True)
     = (Redirect danger PriceInvalid, shop True) \<and>
   menu_update 7 (form_of [(''name'', ''Tea''), (''price'', ''12.5'')]) (shop True)
     = (NotFound, shop True) \<and>
   menu_update 9223372036854775808 (form_of [(''name'', ''Tea''), (''price'', ''12.5'')])
     (shop True) = (ServerError OverflowError, shop True) \<and>
   list_menu (snd (menu_update 1 (form_of [(''name'', ''Tea''), (''price'', ''12.5'')])
                  (shop True)))
     = list_menu (shop True)"
proof -
  let ?f = "form_of [(''name'', ''Tea''), (''price'', ''12.5'')]"
  have b: "case py_int (strip (form_get_or ?f ''price'' (str ''0''))) of
             None \<Rightarrow> True | Some p \<Rightarrow> p < 0"
    by (simp add: text_eval)
  have e: "select_menu (shop True) 1 = Inr (Some tea)"
    by (simp add: sql_eval data_eval)
  have a: "select_menu (shop True) 7 = Inr None"
    by (simp add: sql_eval data_eval)
  have o: "\<not> int64 9223372036854775808"
    by (simp add: int64_def)
  have c: "menu_create ?f (shop True) = (Redirect danger PriceInvalid, shop True)"
    by (simp add: menu_create_def Let_def text_eval)
  have u: "menu_update 1 ?f (shop True) = (Redirect danger PriceInvalid, shop True)"
    by (simp add: menu_update_def Let_def text_eval sql_eval data_eval)
  note t = menu_bad_price_rejected [OF b]
  note t7 = t [of "shop True" 7 tea, THEN conjunct2, THEN conjunct2, THEN conjunct2,
      THEN conjunct1, THEN mp, OF a]
  note tb = t [of "shop True" 9223372036854775808 tea, THEN conjunct2, THEN conjunct2,
      THEN conjunct2, THEN conjunct2, THEN conjunct1, THEN mp, OF o]
  note t1 = t [of "shop True" 1 tea, THEN conjunct2, THEN conjunct2, THEN conjunct2,
      THEN conjunct2, THEN conjunct2, THEN conjunct2, THEN conjunct1]
  show ?thesis
    by (intro conjI) (rule b e a o c u t7 tb t1)+
qed

end
